theory Spec2Isabelle
  imports Complex_Main "HOL-Library.Monad_Syntax" "HOL-Library.Sublist"
begin

section \<open>JavaScript values\<close>

text \<open>
  The route handler \<^verbatim>\<open>GET\<close> of \<^verbatim>\<open>app/api/weather/route.ts\<close> works on the untyped result of
  \<^verbatim>\<open>weatherResponse.json()\<close>, so the embedding is over JavaScript values. A number is the
  exact value of an IEEE double (a rational), \<^verbatim>\<open>NaN\<close> or an infinity; \<^verbatim>\<open>-0\<close> is not
  distinguished from \<^verbatim>\<open>0\<close> (both are written \<^verbatim>\<open>0\<close> by \<^verbatim>\<open>JSON.stringify\<close>). A string is a
  list of characters, one per UTF-16 code unit, over the Latin-1 range. An object is the
  list of its own properties in insertion order; a key is looked up at its first binding.
\<close>

datatype number = Finite rat | NaN | Infinity bool

datatype jsval =
    JUndefined
  | JNull
  | JBool bool
  | JNum number
  | JStr string
  | JArr "jsval list"
  | JObj "(string \<times> jsval) list"

text \<open>
  Conversions of strings, arrays and objects to a number, and of numbers, arrays and
  objects to a string (ECMAScript \<^verbatim>\<open>StringToNumber\<close>, \<^verbatim>\<open>Number::toString\<close>,
  \<^verbatim>\<open>OrdinaryToPrimitive\<close>), belong to the language runtime and are not embedded: they are
  a parameter of the model. \<open>None\<close> is a thrown \<^verbatim>\<open>TypeError\<close> (an object whose
  \<^verbatim>\<open>toString\<close> and \<^verbatim>\<open>valueOf\<close> are both shadowed by data).
\<close>

record runtime =
  ToNumber_rt :: "jsval \<Rightarrow> number option"
  ToString_rt :: "jsval \<Rightarrow> string option"

text \<open>Throughout, a result \<open>None\<close> of type \<open>'a option\<close> is a \<^verbatim>\<open>TypeError\<close> thrown at that point.\<close>

fun truthy :: "jsval \<Rightarrow> bool" where
  "truthy JUndefined = False"
| "truthy JNull = False"
| "truthy (JBool b) = b"
| "truthy (JNum (Finite q)) = (q \<noteq> 0)"
| "truthy (JNum NaN) = False"
| "truthy (JNum (Infinity s)) = True"
| "truthy (JStr s) = (s \<noteq> [])"
| "truthy (JArr xs) = True"
| "truthy (JObj kvs) = True"

fun nullish :: "jsval \<Rightarrow> bool" where
  "nullish JUndefined = True"
| "nullish JNull = True"
| "nullish v = False"

text \<open>
  \<^verbatim>\<open>v.k\<close>: reading a property of \<^verbatim>\<open>undefined\<close> or \<^verbatim>\<open>null\<close> throws. The handler reads only
  names that no string, array, number or boolean has as a built-in property
  (\<^verbatim>\<open>location\<close>, \<^verbatim>\<open>hour\<close>, \<^verbatim>\<open>temp_c\<close>, ...), so on those the result is \<^verbatim>\<open>undefined\<close>;
  \<^verbatim>\<open>length\<close> and the method calls are modelled separately below.
\<close>

fun property :: "jsval \<Rightarrow> string \<Rightarrow> jsval" where
  "property (JObj kvs) k = (case map_of kvs k of Some v \<Rightarrow> v | None \<Rightarrow> JUndefined)"
| "property v k = JUndefined"

definition get :: "jsval \<Rightarrow> string \<Rightarrow> jsval option" where
  "get v k = (if nullish v then None else Some (property v k))"

text \<open>\<^verbatim>\<open>v?.k\<close>\<close>

definition optGet :: "jsval \<Rightarrow> string \<Rightarrow> jsval" where
  "optGet v k = (if nullish v then JUndefined else property v k)"

text \<open>\<^verbatim>\<open>a || b\<close>\<close>

definition jsOr :: "jsval \<Rightarrow> jsval \<Rightarrow> jsval" where
  "jsOr a b = (if truthy a then a else b)"

fun isArray :: "jsval \<Rightarrow> bool" where
  "isArray (JArr xs) = True"
| "isArray v = False"

fun elems :: "jsval \<Rightarrow> jsval list" where
  "elems (JArr xs) = xs"
| "elems v = []"

text \<open>\<^verbatim>\<open>xs.map(f)\<close> on an array; the callback may throw, which ends the traversal.\<close>

fun mapArray :: "(jsval \<Rightarrow> jsval option) \<Rightarrow> jsval list \<Rightarrow> jsval list option" where
  "mapArray f [] = Some []"
| "mapArray f (x # xs) = do { y \<leftarrow> f x; ys \<leftarrow> mapArray f xs; Some (y # ys) }"

subsection \<open>Coercions and \<^verbatim>\<open>Math.round\<close>\<close>

fun ToNumber :: "runtime \<Rightarrow> jsval \<Rightarrow> number option" where
  "ToNumber R JUndefined = Some NaN"
| "ToNumber R JNull = Some (Finite 0)"
| "ToNumber R (JBool b) = Some (Finite (if b then 1 else 0))"
| "ToNumber R (JNum n) = Some n"
| "ToNumber R v = ToNumber_rt R v"

fun ToString :: "runtime \<Rightarrow> jsval \<Rightarrow> string option" where
  "ToString R JUndefined = Some ''undefined''"
| "ToString R JNull = Some ''null''"
| "ToString R (JBool b) = Some (if b then ''true'' else ''false'')"
| "ToString R (JStr s) = Some s"
| "ToString R v = ToString_rt R v"

text \<open>
  \<^verbatim>\<open>Math.round\<close> returns the integer closest to its argument, a tie going towards
  \<open>+\<infinity>\<close>: that is \<open>\<lfloor>x + 1/2\<rfloor>\<close>, which is \<^const>\<open>round\<close>.
\<close>

fun roundNumber :: "number \<Rightarrow> number" where
  "roundNumber (Finite q) = Finite (of_int (round q))"
| "roundNumber n = n"

definition Math_round :: "runtime \<Rightarrow> jsval \<Rightarrow> jsval option" where
  "Math_round R v = map_option (\<lambda>n. JNum (roundNumber n)) (ToNumber R v)"

text \<open>\<^verbatim>\<open>v > n\<close> for a finite number \<open>n\<close> on the right.\<close>

definition greaterThan :: "runtime \<Rightarrow> jsval \<Rightarrow> rat \<Rightarrow> bool option" where
  "greaterThan R v n =
     map_option (\<lambda>x. case x of Finite q \<Rightarrow> n < q | NaN \<Rightarrow> False | Infinity s \<Rightarrow> s)
       (ToNumber R v)"

text \<open>\<^verbatim>\<open>v + s\<close> for a string \<open>s\<close> on the right: string concatenation.\<close>

definition plusString :: "runtime \<Rightarrow> jsval \<Rightarrow> string \<Rightarrow> jsval option" where
  "plusString R v s = map_option (\<lambda>t. JStr (t @ s)) (ToString R v)"

subsection \<open>String methods\<close>

text \<open>\<^verbatim>\<open>s.substring(a, b)\<close>: both indices are clamped to the length and swapped if \<open>a > b\<close>.\<close>

definition substring :: "string \<Rightarrow> nat \<Rightarrow> nat \<Rightarrow> string" where
  "substring s a b = take (max a b - min a b) (drop (min a b) s)"

text \<open>
  A method call \<^verbatim>\<open>v.substring(a, b)\<close> or \<^verbatim>\<open>v.toLowerCase()\<close> on a decoded JSON value: only a
  string has the method; on \<^verbatim>\<open>undefined\<close> and \<^verbatim>\<open>null\<close> the property read throws, on anything
  else the property is \<^verbatim>\<open>undefined\<close> or data, and calling it throws.
\<close>

fun call_substring :: "jsval \<Rightarrow> nat \<Rightarrow> nat \<Rightarrow> jsval option" where
  "call_substring (JStr s) a b = Some (JStr (substring s a b))"
| "call_substring v a b = None"

text \<open>
  Lower-casing within Latin-1: \<^verbatim>\<open>A\<close>--\<^verbatim>\<open>Z\<close> and the accented capitals \<^verbatim>\<open>U+00C0\<close>--\<^verbatim>\<open>U+00DE\<close>
  (without the multiplication sign \<^verbatim>\<open>U+00D7\<close>) move up by 32.
\<close>

definition lowerChar :: "char \<Rightarrow> char" where
  "lowerChar c =
     (let n = (of_char c :: nat)
      in if (65 \<le> n \<and> n \<le> 90) \<or> (192 \<le> n \<and> n \<le> 222 \<and> n \<noteq> 215) then char_of (n + 32) else c)"

definition toLowerCase :: "string \<Rightarrow> string" where
  "toLowerCase s = map lowerChar s"

fun call_toLowerCase :: "jsval \<Rightarrow> jsval option" where
  "call_toLowerCase (JStr s) = Some (JStr (toLowerCase s))"
| "call_toLowerCase v = None"

text \<open>\<^verbatim>\<open>v?.length\<close> where \<open>v\<close> is \<^verbatim>\<open>undefined\<close>, \<^verbatim>\<open>null\<close>, a string or an array.\<close>

fun optLength :: "jsval \<Rightarrow> jsval" where
  "optLength (JStr s) = JNum (Finite (of_nat (length s)))"
| "optLength (JArr xs) = JNum (Finite (of_nat (length xs)))"
| "optLength v = optGet v ''length''"

subsection \<open>Indexing, \<^verbatim>\<open>length\<close> and \<^verbatim>\<open>map\<close> on a decoded value\<close>

fun decimal :: "nat \<Rightarrow> string" where
  "decimal n = (if n < 10 then [char_of (48 + n)] else decimal (n div 10) @ [char_of (48 + n mod 10)])"

declare decimal.simps [simp del]

text \<open>
  \<^verbatim>\<open>v[i]\<close>: an element of an array, a one-character string of a string, the property named
  by the decimal index of an object, \<^verbatim>\<open>undefined\<close> elsewhere; it throws on \<^verbatim>\<open>undefined\<close> and
  \<^verbatim>\<open>null\<close>.
\<close>

fun index :: "jsval \<Rightarrow> nat \<Rightarrow> jsval option" where
  "index JUndefined i = None"
| "index JNull i = None"
| "index (JArr xs) i = Some (if i < length xs then xs ! i else JUndefined)"
| "index (JStr s) i = Some (if i < length s then JStr [s ! i] else JUndefined)"
| "index v i = Some (property v (decimal i))"

text \<open>\<^verbatim>\<open>v.length\<close>\<close>

definition lengthOf :: "jsval \<Rightarrow> jsval option" where
  "lengthOf v = (if nullish v then None else Some (optLength v))"

text \<open>
  \<^verbatim>\<open>v.map(f)\<close>: only an array has a callable \<^verbatim>\<open>map\<close>; a decoded JSON value holds no
  function, so on every other value the call throws.
\<close>

fun call_map :: "(jsval \<Rightarrow> jsval option) \<Rightarrow> jsval \<Rightarrow> jsval option" where
  "call_map f (JArr xs) = map_option JArr (mapArray f xs)"
| "call_map f v = None"


section \<open>The normalizer\<close>

subsection \<open>Alerts\<close>

text \<open>
  \<^verbatim>\<open>
  (alert: any) => ({
    title: alert.event || alert.headline || "Alert",
    description: alert.desc?.substring(0, 200) + (alert.desc?.length > 200 ? "..." : "") || "",
    severity: alert.severity || "moderate",
  })
  \<close>
  \<^verbatim>\<open>+\<close> binds tighter than \<^verbatim>\<open>||\<close>. \<^verbatim>\<open>alert.desc?.substring(0, 200)\<close> is \<^verbatim>\<open>undefined\<close> when
  \<^verbatim>\<open>desc\<close> is \<^verbatim>\<open>undefined\<close> or \<^verbatim>\<open>null\<close>, and a method call otherwise.
\<close>

definition mapAlert :: "runtime \<Rightarrow> jsval \<Rightarrow> jsval option" where
  "mapAlert R alert = do {
     event \<leftarrow> get alert ''event'';
     headline \<leftarrow> get alert ''headline'';
     desc \<leftarrow> get alert ''desc'';
     head \<leftarrow> (if nullish desc then Some JUndefined else call_substring desc 0 200);
     long \<leftarrow> greaterThan R (optLength desc) 200;
     text \<leftarrow> plusString R head (if long then ''...'' else '''');
     severity \<leftarrow> get alert ''severity'';
     Some (JObj
       [(''title'', jsOr event (jsOr headline (JStr ''Alert''))),
        (''description'', jsOr text (JStr '''')),
        (''severity'', jsOr severity (JStr ''moderate''))])
   }"

subsection \<open>Hours and days\<close>

text \<open>
  \<^verbatim>\<open>
  (h: any) => ({
    time: h.time.substring(11, 16),
    temp: Math.round(h.temp_c),
    condition: h.condition.text.toLowerCase(),
    humidity: h.humidity,
    windSpeed: Math.round(h.wind_kph),
  })
  \<close>
\<close>

definition mapHour :: "runtime \<Rightarrow> jsval \<Rightarrow> jsval option" where
  "mapHour R h = do {
     t \<leftarrow> get h ''time'';
     time \<leftarrow> call_substring t 11 16;
     temp_c \<leftarrow> get h ''temp_c'';
     temp \<leftarrow> Math_round R temp_c;
     condition \<leftarrow> get h ''condition'';
     text \<leftarrow> get condition ''text'';
     lower \<leftarrow> call_toLowerCase text;
     humidity \<leftarrow> get h ''humidity'';
     wind_kph \<leftarrow> get h ''wind_kph'';
     windSpeed \<leftarrow> Math_round R wind_kph;
     Some (JObj
       [(''time'', time), (''temp'', temp), (''condition'', lower),
        (''humidity'', humidity), (''windSpeed'', windSpeed)])
   }"

text \<open>
  \<^verbatim>\<open>
  (day: any) => ({
    dt: day.date_epoch,
    temp: Math.round(day.day.avgtemp_c),
    min: Math.round(day.day.mintemp_c),
    max: Math.round(day.day.maxtemp_c),
    condition: day.day.condition.text.toLowerCase(),
    description: day.day.condition.text,
    icon: day.day.condition.icon,
  })
  \<close>
\<close>

definition mapDay :: "runtime \<Rightarrow> jsval \<Rightarrow> jsval option" where
  "mapDay R day = do {
     dt \<leftarrow> get day ''date_epoch'';
     d \<leftarrow> get day ''day'';
     avgtemp_c \<leftarrow> get d ''avgtemp_c'';
     temp \<leftarrow> Math_round R avgtemp_c;
     mintemp_c \<leftarrow> get d ''mintemp_c'';
     mn \<leftarrow> Math_round R mintemp_c;
     maxtemp_c \<leftarrow> get d ''maxtemp_c'';
     mx \<leftarrow> Math_round R maxtemp_c;
     condition \<leftarrow> get d ''condition'';
     text \<leftarrow> get condition ''text'';
     lower \<leftarrow> call_toLowerCase text;
     icon \<leftarrow> get condition ''icon'';
     Some (JObj
       [(''dt'', dt), (''temp'', temp), (''min'', mn), (''max'', mx),
        (''condition'', lower), (''description'', text), (''icon'', icon)])
   }"

text \<open>
  Lines 188--209: tomorrow's hours and summary, a pair
  \<open>(tomorrowHourlyForecast, tomorrowDaySummary)\<close> that starts as \<^verbatim>\<open>([], null)\<close>.
\<close>

definition tomorrowPart :: "runtime \<Rightarrow> jsval \<Rightarrow> (jsval \<times> jsval) option" where
  "tomorrowPart R forecastday = do {
     n \<leftarrow> lengthOf forecastday;
     more \<leftarrow> greaterThan R n 1;
     if more then do {
       tomorrow \<leftarrow> index forecastday 1;
       hour \<leftarrow> get tomorrow ''hour'';
       tomorrowHourlyForecast \<leftarrow>
         (if truthy hour \<and> isArray hour then call_map (mapHour R) hour else Some (JArr []));
       d \<leftarrow> get tomorrow ''day'';
       avgtemp_c \<leftarrow> get d ''avgtemp_c'';
       temp \<leftarrow> Math_round R avgtemp_c;
       mintemp_c \<leftarrow> get d ''mintemp_c'';
       mn \<leftarrow> Math_round R mintemp_c;
       maxtemp_c \<leftarrow> get d ''maxtemp_c'';
       mx \<leftarrow> Math_round R maxtemp_c;
       condition \<leftarrow> get d ''condition'';
       text \<leftarrow> get condition ''text'';
       lower \<leftarrow> call_toLowerCase text;
       icon \<leftarrow> get condition ''icon'';
       Some (tomorrowHourlyForecast,
         JObj [(''temp'', temp), (''min'', mn), (''max'', mx),
               (''condition'', lower), (''description'', text), (''icon'', icon)])
     } else Some (JArr [], JNull)
   }"

subsection \<open>The response record\<close>

text \<open>
  Lines 170--254 of \<^verbatim>\<open>GET\<close>: from the decoded payload to \<^verbatim>\<open>formattedResponse\<close>. The
  length of \<^verbatim>\<open>mappedAlerts\<close>, the result of \<^verbatim>\<open>Array.prototype.map\<close>, is the length of a list.
\<close>

definition normalize :: "runtime \<Rightarrow> jsval \<Rightarrow> jsval option" where
  "normalize R data = do {
     current \<leftarrow> get data ''current'';
     location \<leftarrow> get data ''location'';
     forecast \<leftarrow> get data ''forecast'';
     forecastday \<leftarrow> get forecast ''forecastday'';
     today \<leftarrow> index forecastday 0;
     alerts \<leftarrow> Some (jsOr (optGet (property data ''alerts'') ''alert'') (JArr []));
     hour \<leftarrow> get today ''hour'';
     hourlyForecast \<leftarrow>
       (if truthy hour \<and> isArray hour then call_map (mapHour R) hour else Some (JArr []));
     (tomorrowHourlyForecast, tomorrowDaySummary) \<leftarrow> tomorrowPart R forecastday;
     dailyForecast \<leftarrow> call_map (mapDay R) forecastday;
     mappedAlerts \<leftarrow> call_map (mapAlert R) alerts;
     name \<leftarrow> get location ''name'';
     country \<leftarrow> get location ''country'';
     temp_c \<leftarrow> get current ''temp_c'';
     temperature \<leftarrow> Math_round R temp_c;
     condition \<leftarrow> get current ''condition'';
     text \<leftarrow> get condition ''text'';
     humidity \<leftarrow> get current ''humidity'';
     wind_kph \<leftarrow> get current ''wind_kph'';
     windSpeed \<leftarrow> Math_round R wind_kph;
     wind_degree \<leftarrow> get current ''wind_degree'';
     uv \<leftarrow> get current ''uv'';
     vis_km \<leftarrow> get current ''vis_km'';
     visibility \<leftarrow> Math_round R vis_km;
     pressure_mb \<leftarrow> get current ''pressure_mb'';
     feelslike_c \<leftarrow> get current ''feelslike_c'';
     feelsLike \<leftarrow> Math_round R feelslike_c;
     d \<leftarrow> get today ''day'';
     maxtemp_c \<leftarrow> get d ''maxtemp_c'';
     high \<leftarrow> Math_round R maxtemp_c;
     mintemp_c \<leftarrow> get d ''mintemp_c'';
     low \<leftarrow> Math_round R mintemp_c;
     astro \<leftarrow> get today ''astro'';
     sunrise \<leftarrow> get astro ''sunrise'';
     sunset \<leftarrow> get astro ''sunset'';
     tz_id \<leftarrow> get location ''tz_id'';
     lat \<leftarrow> get location ''lat'';
     lon \<leftarrow> get location ''lon'';
     Some (JObj
       [(''city'', name),
        (''country'', country),
        (''temperature'', temperature),
        (''condition'', text),
        (''description'', text),
        (''humidity'', humidity),
        (''windSpeed'', windSpeed),
        (''windDirection'', wind_degree),
        (''uvIndex'', uv),
        (''visibility'', visibility),
        (''pressure'', pressure_mb),
        (''feelsLike'', feelsLike),
        (''high'', high),
        (''low'', low),
        (''sunrise'', sunrise),
        (''sunset'', sunset),
        (''timezone'', tz_id),
        (''coordinates'', JObj [(''lat'', lat), (''lon'', lon)]),
        (''hourlyForecast'', hourlyForecast),
        (''tomorrowHourlyForecast'', tomorrowHourlyForecast),
        (''tomorrowDaySummary'', tomorrowDaySummary),
        (''dailyForecast'', dailyForecast),
        (''alerts'', if 0 < length (elems mappedAlerts) then mappedAlerts else JUndefined)])
   }"

subsection \<open>What \<^verbatim>\<open>JSON.stringify\<close> transmits\<close>

text \<open>
  \<^verbatim>\<open>NextResponse.json\<close> serializes its argument with \<^verbatim>\<open>JSON.stringify\<close>: a property whose
  value is \<^verbatim>\<open>undefined\<close> is left out, \<^verbatim>\<open>undefined\<close> in an array and every non-finite number
  become \<^verbatim>\<open>null\<close>. \<open>wire v\<close> is the value the client decodes.
\<close>

primrec wire :: "jsval \<Rightarrow> jsval" where
  "wire JUndefined = JUndefined"
| "wire JNull = JNull"
| "wire (JBool b) = JBool b"
| "wire (JNum n) = (case n of Finite q \<Rightarrow> JNum (Finite q) | _ \<Rightarrow> JNull)"
| "wire (JStr s) = JStr s"
| "wire (JArr xs) = JArr (map (\<lambda>v. if v = JUndefined then JNull else v) (map wire xs))"
| "wire (JObj kvs) =
     JObj (filter (\<lambda>kv. snd kv \<noteq> JUndefined) (map (map_prod (\<lambda>k. k) wire) kvs))"

text \<open>The keys of the transmitted object.\<close>

fun keys :: "jsval \<Rightarrow> string list" where
  "keys (JObj kvs) = map fst kvs"
| "keys v = []"

section \<open>The route handler\<close>

subsection \<open>Requests, the provider and the console\<close>

text \<open>
  \<^verbatim>\<open>searchParams.get\<close> returns a string or \<^verbatim>\<open>null\<close>, and \<^verbatim>\<open>process.env.WEATHERAPI_KEY\<close> a
  string or \<^verbatim>\<open>undefined\<close>: both are a \<open>string option\<close>, truthy when present and not empty.
\<close>

record request =
  city :: "string option"
  lat :: "string option"
  lon :: "string option"

definition present :: "string option \<Rightarrow> bool" where
  "present p = (case p of None \<Rightarrow> False | Some s \<Rightarrow> s \<noteq> [])"

text \<open>
  A thrown value: a \<^verbatim>\<open>TypeError\<close> raised by the handler's own property reads and method
  calls, or an \<^verbatim>\<open>Error\<close> with a name and a message coming from \<^verbatim>\<open>fetch\<close> or from
  \<^verbatim>\<open>weatherResponse.json()\<close>.
\<close>

datatype exn = InternalTypeError | HostError string string

record upstream =
  ok :: bool
  upstream_status :: nat
  json :: "exn + jsval"

datatype fetch_outcome = Rejects exn | Resolves upstream

record env =
  WEATHERAPI_KEY :: "string option"
  fetch :: "string \<Rightarrow> fetch_outcome"

datatype logarg = LStr string | LNum nat | LVal jsval | LErr exn

type_synonym logline = "logarg list"

record http_response =
  status :: nat
  body :: jsval
  headers :: "(string \<times> string) list"

text \<open>What one run of the handler does: its response, the URLs it fetched, its console lines.\<close>

record run =
  response :: http_response
  fetched :: "string list"
  console :: "logline list"

definition NextResponse_json :: "jsval \<Rightarrow> nat \<Rightarrow> (string \<times> string) list \<Rightarrow> http_response" where
  "NextResponse_json b st hs = \<lparr>status = st, body = b, headers = hs\<rparr>"

definition errorBody :: "string \<Rightarrow> jsval" where
  "errorBody msg = JObj [(''error'', JStr msg)]"

subsection \<open>Strings of the request URL\<close>

text \<open>\<^verbatim>\<open>s.includes(pat)\<close>\<close>

fun str_includes :: "string \<Rightarrow> string \<Rightarrow> bool" where
  "str_includes [] pat = (pat = [])"
| "str_includes (c # cs) pat = (prefix pat (c # cs) \<or> str_includes cs pat)"

text \<open>
  \<^verbatim>\<open>s.replace(pat, rep)\<close> with a string pattern replaces the first occurrence only; the
  replacement \<^verbatim>\<open>"[API_KEY]"\<close> holds no \<^verbatim>\<open>$\<close> pattern.
\<close>

fun replace :: "string \<Rightarrow> string \<Rightarrow> string \<Rightarrow> string" where
  "replace [] pat rep = (if pat = [] then rep else [])"
| "replace (c # cs) pat rep =
     (if prefix pat (c # cs) then rep @ drop (length pat) (c # cs) else c # replace cs pat rep)"

text \<open>
  \<^verbatim>\<open>encodeURIComponent\<close> on Latin-1 text: letters, digits and \<^verbatim>\<open>-_.!~*'()\<close> stay, every other
  character becomes the percent-escapes of its UTF-8 bytes.
\<close>

definition hexDigit :: "nat \<Rightarrow> char" where
  "hexDigit n = (if n < 10 then char_of (48 + n) else char_of (55 + n))"

definition percent :: "nat \<Rightarrow> string" where
  "percent b = [CHR ''%'', hexDigit (b div 16), hexDigit (b mod 16)]"

definition unreserved :: "nat \<Rightarrow> bool" where
  "unreserved n =
     ((65 \<le> n \<and> n \<le> 90) \<or> (97 \<le> n \<and> n \<le> 122) \<or> (48 \<le> n \<and> n \<le> 57)
      \<or> n \<in> {45, 95, 46, 33, 126, 42, 39, 40, 41})"

definition encodeChar :: "char \<Rightarrow> string" where
  "encodeChar c =
     (let n = (of_char c :: nat)
      in if unreserved n then [c]
         else if n < 128 then percent n
         else percent (192 + n div 64) @ percent (128 + n mod 64))"

definition encodeURIComponent :: "string \<Rightarrow> string" where
  "encodeURIComponent s = concat (map encodeChar s)"

subsection \<open>\<^verbatim>\<open>GET\<close>\<close>

text \<open>Lines 136--143: \<open>None\<close> is the branch that answers 400.\<close>

definition queryParam :: "request \<Rightarrow> string option" where
  "queryParam req =
     (if present (lat req) \<and> present (lon req) then Some (the (lat req) @ '','' @ the (lon req))
      else if present (city req) then city req
      else None)"

text \<open>Line 146.\<close>

definition requestUrl :: "string \<Rightarrow> string \<Rightarrow> string" where
  "requestUrl apiKey q =
     ''https://api.weatherapi.com/v1/forecast.json?key='' @ apiKey @ ''&q='' @ encodeURIComponent q
       @ ''&days=7&aqi=no&alerts=yes''"

text \<open>
  Lines 155--162, the provider answered with a status outside 200--299. The console line
  is written before the message is built, so it stays when building the message throws.
  The status is passed on as it is; it is taken to be one that may carry a body, as the
  4xx and 5xx answers of the provider are.
\<close>

definition upstreamError :: "runtime \<Rightarrow> upstream \<Rightarrow> (exn + http_response) \<times> logline list" where
  "upstreamError R r =
     (let errorData = (case json r of Inl e \<Rightarrow> JObj [] | Inr d \<Rightarrow> d);
          line = [LStr ''WeatherAPI error:'', LNum (upstream_status r), LVal errorData]
      in case do {
              e \<leftarrow> get errorData ''error'';
              ToString R (jsOr (optGet e ''message'') (JStr ''Unknown error''))
            } of
           None \<Rightarrow> (Inl InternalTypeError, [line])
         | Some msg \<Rightarrow>
             (Inr (NextResponse_json (errorBody (''Weather service error: '' @ msg))
                     (upstream_status r) []), [line]))"

text \<open>
  Line 165, \<^verbatim>\<open>!data.location || !data.current || !data.forecast?.forecastday\<close>: \<open>Some True\<close>
  when the payload is refused, \<open>None\<close> when reading \<^verbatim>\<open>data.location\<close> throws.
\<close>

definition invalidPayload :: "jsval \<Rightarrow> bool option" where
  "invalidPayload data = do {
     location \<leftarrow> get data ''location'';
     if \<not> truthy location then Some True
     else do {
       current \<leftarrow> get data ''current'';
       if \<not> truthy current then Some True
       else do {
         forecast \<leftarrow> get data ''forecast'';
         Some (\<not> truthy (optGet forecast ''forecastday''))
       }
     }
   }"

text \<open>Lines 164--262, the provider answered with a success status and a decoded body.\<close>

definition processPayload :: "runtime \<Rightarrow> jsval \<Rightarrow> (exn + http_response) \<times> logline list" where
  "processPayload R data =
     (case invalidPayload data of
        None \<Rightarrow> (Inl InternalTypeError, [])
      | Some True \<Rightarrow>
          (Inr (NextResponse_json (errorBody ''Invalid weather data received from service'') 502 []), [])
      | Some False \<Rightarrow>
          (case normalize R data of
             None \<Rightarrow> (Inl InternalTypeError, [])
           | Some formattedResponse \<Rightarrow>
               (Inr (NextResponse_json formattedResponse 200
                       [(''Cache-Control'', ''public, max-age=600'')]),
                [[LStr ''Successfully processed weather data for:'',
                  LVal (property formattedResponse ''city'')]])))"

text \<open>The \<^verbatim>\<open>try\<close> block: its result or the thrown value, the URLs fetched, the console lines.\<close>

definition tryBlock ::
  "runtime \<Rightarrow> env \<Rightarrow> request \<Rightarrow> (exn + http_response) \<times> string list \<times> logline list" where
  "tryBlock R E req =
     (if \<not> present (WEATHERAPI_KEY E) then
        (Inr (NextResponse_json
                (errorBody ''Weather service is not configured. Please contact the administrator.'')
                500 []),
         [], [[LStr ''WeatherAPI key not configured'']])
      else
        (case queryParam req of
           None \<Rightarrow>
             (Inr (NextResponse_json
                     (errorBody ''Please provide either a city name or coordinates'') 400 []),
              [], [])
         | Some q \<Rightarrow>
             (let apiKey = the (WEATHERAPI_KEY E);
                  url = requestUrl apiKey q;
                  line = [LStr ''Fetching weather data from:'', LStr (replace url apiKey ''[API_KEY]'')]
              in case fetch E url of
                   Rejects e \<Rightarrow> (Inl e, [url], [line])
                 | Resolves weatherResponse \<Rightarrow>
                     (if \<not> ok weatherResponse then
                        (case upstreamError R weatherResponse of
                           (res, ls) \<Rightarrow> (res, [url], line # ls))
                      else
                        (case json weatherResponse of
                           Inl e \<Rightarrow> (Inl e, [url], [line])
                         | Inr data \<Rightarrow>
                             (case processPayload R data of
                                (res, ls) \<Rightarrow> (res, [url], line # ls)))))))"

text \<open>
  The \<^verbatim>\<open>catch\<close> block, lines 263--276. The messages of the engine's own \<^verbatim>\<open>TypeError\<close>s name
  the property or method of the source (\<^verbatim>\<open>hour\<close>, \<^verbatim>\<open>substring\<close>, \<^verbatim>\<open>map\<close>, ...), none of which
  contains \<^verbatim>\<open>fetch\<close>.
\<close>

definition unexpected :: http_response where
  "unexpected =
     NextResponse_json (errorBody ''An unexpected error occurred while fetching weather data'') 500 []"

fun catchBlock :: "exn \<Rightarrow> http_response" where
  "catchBlock InternalTypeError = unexpected"
| "catchBlock (HostError name message) =
     (if name = ''AbortError'' then
        NextResponse_json (errorBody ''Request timed out. Please try again.'') 408 []
      else if str_includes message ''fetch'' then
        NextResponse_json
          (errorBody ''Network error. Please check your connection and try again.'') 503 []
      else unexpected)"

definition GET :: "runtime \<Rightarrow> env \<Rightarrow> request \<Rightarrow> run" where
  "GET R E req =
     (case tryBlock R E req of
        (Inr res, urls, ls) \<Rightarrow> \<lparr>response = res, fetched = urls, console = ls\<rparr>
      | (Inl e, urls, ls) \<Rightarrow>
          \<lparr>response = catchBlock e, fetched = urls,
           console = ls @ [[LStr ''Weather API route error:'', LErr e]]\<rparr>)"

subsection \<open>Parts of the provider payload\<close>

text \<open>\<^verbatim>\<open>data.forecast.forecastday\<close> as a list of days, and \<^verbatim>\<open>data.alerts?.alert\<close>.\<close>

definition forecastDays :: "jsval \<Rightarrow> jsval list" where
  "forecastDays data = elems (property (property data ''forecast'') ''forecastday'')"

definition sourceAlerts :: "jsval \<Rightarrow> jsval" where
  "sourceAlerts data = optGet (property data ''alerts'') ''alert''"

text \<open>A number with a fractional part.\<close>

definition fractional :: "jsval \<Rightarrow> bool" where
  "fractional v = (case v of JNum (Finite q) \<Rightarrow> q \<noteq> of_int \<lfloor>q\<rfloor> | _ \<Rightarrow> False)"

section \<open>Sample inputs\<close>

text \<open>A runtime whose conversions of strings and objects give \<^verbatim>\<open>NaN\<close> and \<^verbatim>\<open>"[object Object]"\<close>.\<close>

definition plainRuntime :: runtime where
  "plainRuntime = \<lparr>ToNumber_rt = (\<lambda>v. Some NaN), ToString_rt = (\<lambda>v. Some ''[object Object]'')\<rparr>"

definition sampleCondition :: jsval where
  "sampleCondition = JObj [(''text'', JStr ''Partly Cloudy''), (''icon'', JStr ''//cdn/116.png'')]"

definition sampleHour :: jsval where
  "sampleHour = JObj
     [(''time'', JStr ''2024-05-01 13:00''), (''temp_c'', JNum (Finite (25 / 2))),
      (''condition'', sampleCondition), (''humidity'', JNum (Finite 60)),
      (''wind_kph'', JNum (Finite (77 / 10)))]"

text \<open>A forecast day with the given \<^verbatim>\<open>hour\<close> field.\<close>

definition sampleDay :: "jsval \<Rightarrow> jsval" where
  "sampleDay hour = JObj
     [(''date_epoch'', JNum (Finite 1714521600)),
      (''day'', JObj
         [(''avgtemp_c'', JNum (Finite (123 / 10))), (''mintemp_c'', JNum (Finite (- 5 / 2))),
          (''maxtemp_c'', JNum (Finite (181 / 10))), (''condition'', sampleCondition)]),
      (''astro'', JObj [(''sunrise'', JStr ''05:32 AM''), (''sunset'', JStr ''08:24 PM'')]),
      (''hour'', hour)]"

text \<open>A second forecast day, with other values, and the given \<^verbatim>\<open>hour\<close> field.\<close>

definition sampleTomorrow :: "jsval \<Rightarrow> jsval" where
  "sampleTomorrow hour = JObj
     [(''date_epoch'', JNum (Finite 1714608000)),
      (''day'', JObj
         [(''avgtemp_c'', JNum (Finite (71 / 10))), (''mintemp_c'', JNum (Finite (- 3 / 2))),
          (''maxtemp_c'', JNum (Finite (29 / 2))),
          (''condition'', JObj [(''text'', JStr ''Light Rain''), (''icon'', JStr ''//cdn/296.png'')])]),
      (''astro'', JObj [(''sunrise'', JStr ''05:30 AM''), (''sunset'', JStr ''08:26 PM'')]),
      (''hour'', hour)]"

text \<open>A payload with the given forecast days and the given \<^verbatim>\<open>alerts.alert\<close> field.\<close>

definition samplePayload :: "jsval list \<Rightarrow> jsval \<Rightarrow> jsval" where
  "samplePayload days alert = JObj
     [(''location'', JObj
         [(''name'', JStr ''London''), (''country'', JStr ''UK''), (''tz_id'', JStr ''Europe/London''),
          (''lat'', JNum (Finite (1288 / 25))), (''lon'', JNum (Finite (- 11 / 100)))]),
      (''current'', JObj
         [(''temp_c'', JNum (Finite (25 / 2))), (''condition'', sampleCondition),
          (''humidity'', JNum (Finite 60)), (''wind_kph'', JNum (Finite (77 / 10))),
          (''wind_degree'', JNum (Finite 200)), (''uv'', JNum (Finite (11 / 2))),
          (''vis_km'', JNum (Finite 10)), (''pressure_mb'', JNum (Finite 1012)),
          (''feelslike_c'', JNum (Finite (114 / 10)))]),
      (''forecast'', JObj [(''forecastday'', JArr days)]),
      (''alerts'', JObj [(''alert'', alert)])]"

text \<open>A provider that cannot be reached, and one that answers every request the same way.\<close>

definition offline :: "string \<Rightarrow> fetch_outcome" where
  "offline url = Rejects (HostError ''TypeError'' ''fetch failed'')"

definition answers :: "bool \<Rightarrow> nat \<Rightarrow> jsval \<Rightarrow> string \<Rightarrow> fetch_outcome" where
  "answers success code d url = Resolves \<lparr>ok = success, upstream_status = code, json = Inr d\<rparr>"

text \<open>The provider's answer to an unknown place, and a payload without its \<^verbatim>\<open>current\<close> section.\<close>

definition sampleErrorBody :: jsval where
  "sampleErrorBody = JObj
     [(''error'', JObj [(''code'', JNum (Finite 1006)), (''message'', JStr ''No matching location found.'')])]"

definition payloadWithoutCurrent :: jsval where
  "payloadWithoutCurrent = JObj
     [(''location'', JObj [(''name'', JStr ''London'')]),
      (''forecast'', JObj [(''forecastday'', JArr [sampleDay (JArr [])])])]"

section \<open>Properties of the route handler\<close>

subsection \<open>Auxiliary facts\<close>

lemma fetched_GET: "fetched (GET R E req) = fst (snd (tryBlock R E req))"
  by (auto simp: GET_def split: prod.splits sum.splits)

lemma unconfigured_run:
  "\<not> present (WEATHERAPI_KEY E) \<Longrightarrow>
   GET R E req =
     \<lparr>response = \<lparr>status = 500,
        body = JObj [(''error'', JStr ''Weather service is not configured. Please contact the administrator.'')],
        headers = []\<rparr>,
      fetched = [], console = [[LStr ''WeatherAPI key not configured'']]\<rparr>"
  by (simp add: GET_def tryBlock_def NextResponse_json_def errorBody_def)

lemma tryBlock_fetched:
  "present (WEATHERAPI_KEY E) \<Longrightarrow> queryParam req = Some q \<Longrightarrow>
   fst (snd (tryBlock R E req)) = [requestUrl (the (WEATHERAPI_KEY E)) q]"
  by (auto simp: tryBlock_def Let_def split: fetch_outcome.splits sum.splits prod.splits)

lemma missing_input_run:
  "present (WEATHERAPI_KEY E) \<Longrightarrow> queryParam req = None \<Longrightarrow>
   GET R E req =
     \<lparr>response = \<lparr>status = 400,
        body = JObj [(''error'', JStr ''Please provide either a city name or coordinates'')],
        headers = []\<rparr>,
      fetched = [], console = []\<rparr>"
  by (simp add: GET_def tryBlock_def NextResponse_json_def errorBody_def)

lemma invalidPayload_refuses:
  assumes "\<not> nullish data"
    and "\<not> truthy (property data ''location'') \<or> \<not> truthy (property data ''current'')
         \<or> \<not> truthy (optGet (property data ''forecast'') ''forecastday'')"
  shows "invalidPayload data = Some True"
  using assms by (auto simp: invalidPayload_def get_def optGet_def)

text \<open>
  The normalizer inside the handler: a success answer of the provider whose body passes
  the check of line 165 is answered with status 200 and the normalized record when the
  normalizer returns, and with the status 500 of the \<^verbatim>\<open>catch\<close> block when it throws.
\<close>

lemma accepted_payload_run:
  assumes "present (WEATHERAPI_KEY E)" and "queryParam req = Some q"
    and "fetch E (requestUrl (the (WEATHERAPI_KEY E)) q) = Resolves w"
    and "ok w" and "json w = Inr data" and "invalidPayload data = Some False"
  shows "normalize R data = Some r \<Longrightarrow>
           response (GET R E req) =
             \<lparr>status = 200, body = r, headers = [(''Cache-Control'', ''public, max-age=600'')]\<rparr>"
    and "normalize R data = None \<Longrightarrow>
           response (GET R E req) =
             \<lparr>status = 500,
              body = JObj [(''error'', JStr ''An unexpected error occurred while fetching weather data'')],
              headers = []\<rparr>"
  using assms
  by (simp_all add: GET_def tryBlock_def processPayload_def Let_def NextResponse_json_def
      errorBody_def unexpected_def)

text \<open>
  C10. The credential is checked before the location input: a request with neither a
  city nor a coordinate pair, met without a configured credential, is answered with
  status 500 and the not-configured error, not with the 400 of the missing input; no
  provider call is made.
\<close>

theorem credential_check_precedes_input_check:
  assumes "\<not> present (WEATHERAPI_KEY E)"
    and "\<not> present (city req)" and "\<not> (present (lat req) \<and> present (lon req))"
  shows "status (response (GET R E req)) = 500
       \<and> body (response (GET R E req)) =
           JObj [(''error'', JStr ''Weather service is not configured. Please contact the administrator.'')]
       \<and> status (response (GET R E req)) \<noteq> 400
       \<and> fetched (GET R E req) = []"
  using assms(1) by (simp add: unconfigured_run)

theorem credential_check_precedes_input_check_witness:
  "\<not> present (WEATHERAPI_KEY \<lparr>WEATHERAPI_KEY = None, fetch = offline\<rparr>)
   \<and> \<not> present (city \<lparr>city = None, lat = Some ''51.5'', lon = None\<rparr>)
   \<and> status (response (GET plainRuntime \<lparr>WEATHERAPI_KEY = None, fetch = offline\<rparr>
        \<lparr>city = None, lat = Some ''51.5'', lon = None\<rparr>)) = 500"
  using credential_check_precedes_input_check
    [of "\<lparr>WEATHERAPI_KEY = None, fetch = offline\<rparr>" "\<lparr>city = None, lat = Some ''51.5'', lon = None\<rparr>" plainRuntime]
  by (simp add: present_def)

text \<open>
  When the credential does not occur in the URL before its own place, the logged URL is
  the request URL with \<^verbatim>\<open>[API_KEY]\<close> in that place.
\<close>

lemma replace_first_occurrence:
  assumes "k \<noteq> []" and "\<forall>i<length p. \<not> prefix k (drop i (p @ k @ rest))"
  shows "replace (p @ k @ rest) k rep = p @ rep @ rest"
  using assms(2)
proof (induction p)
  case Nil
  from assms(1) obtain c cs where k: "k = c # cs" by (cases k) auto
  then show ?case by simp
next
  case (Cons a p)
  from Cons.prems have "\<not> prefix k (drop 0 ((a # p) @ k @ rest))" by blast
  then have first: "\<not> prefix k (a # p @ k @ rest)" by simp
  have "\<forall>i<length p. \<not> prefix k (drop i (p @ k @ rest))"
  proof (intro allI impI)
    fix i assume "i < length p"
    then have "Suc i < length (a # p)" by simp
    with Cons.prems have "\<not> prefix k (drop (Suc i) ((a # p) @ k @ rest))" by blast
    then show "\<not> prefix k (drop i (p @ k @ rest))" by simp
  qed
  from Cons.IH [OF this] first show ?case by simp
qed

lemma unconfigured_console:
  "\<not> present (WEATHERAPI_KEY E) \<Longrightarrow>
   fetched (GET R E req) = [] \<and> console (GET R E req) = [[LStr ''WeatherAPI key not configured'']]"
  by (simp add: unconfigured_run)

text \<open>
  C8. With the credential \<^verbatim>\<open>key\<close> and the request \<^verbatim>\<open>?city=London\<close>, the first occurrence
  of the credential in the URL lies in \<^verbatim>\<open>?key=\<close>, before the credential itself, and
  \<^verbatim>\<open>url.replace\<close> rewrites only that one: the logged line still holds the credential.
\<close>

theorem logged_url_keeps_credential:
  "console (GET plainRuntime \<lparr>WEATHERAPI_KEY = Some ''key'', fetch = offline\<rparr>
       \<lparr>city = Some ''London'', lat = None, lon = None\<rparr>) ! 0 =
     [LStr ''Fetching weather data from:'',
      LStr ''https://api.weatherapi.com/v1/forecast.json?[API_KEY]=key&q=London&days=7&aqi=no&alerts=yes'']
   \<and> str_includes
        ''https://api.weatherapi.com/v1/forecast.json?[API_KEY]=key&q=London&days=7&aqi=no&alerts=yes''
        ''key''"
  by code_simp

text \<open>
  C4, as stated, fails on a mixed request: with a city and both coordinates the handler
  does not answer 400, it calls the provider with the coordinates.
\<close>

theorem mixed_request_is_fetched:
  "fetched (GET plainRuntime \<lparr>WEATHERAPI_KEY = Some ''k1'', fetch = offline\<rparr>
       \<lparr>city = Some ''London'', lat = Some ''51.5'', lon = Some ''-0.1''\<rparr>) =
     [''https://api.weatherapi.com/v1/forecast.json?key=k1&q=51.5%2C-0.1&days=7&aqi=no&alerts=yes'']
   \<and> status (response (GET plainRuntime \<lparr>WEATHERAPI_KEY = Some ''k1'', fetch = offline\<rparr>
       \<lparr>city = Some ''London'', lat = Some ''51.5'', lon = Some ''-0.1''\<rparr>)) \<noteq> 400"
  by code_simp

text \<open>
  C4, amended. With the credential configured: when both coordinates are supplied (with
  or without a city) exactly one provider call is made, with the query \<^verbatim>\<open>lat,lon\<close>;
  otherwise, when a city is supplied, exactly one call is made with the city as the
  query; when neither form is supplied no call is made and the answer is status 400 with
  \<^verbatim>\<open>{error: "Please provide either a city name or coordinates"}\<close>. The query is passed
  through \<^verbatim>\<open>encodeURIComponent\<close> into the URL of line 146.
\<close>

theorem query_form_and_single_call:
  assumes "WEATHERAPI_KEY E = Some k" and "k \<noteq> []"
  shows "(present (lat req) \<and> present (lon req) \<longrightarrow>
            fetched (GET R E req) =
              [''https://api.weatherapi.com/v1/forecast.json?key='' @ k @ ''&q=''
                 @ encodeURIComponent (the (lat req) @ '','' @ the (lon req))
                 @ ''&days=7&aqi=no&alerts=yes''])
       \<and> (\<not> (present (lat req) \<and> present (lon req)) \<and> present (city req) \<longrightarrow>
            fetched (GET R E req) =
              [''https://api.weatherapi.com/v1/forecast.json?key='' @ k @ ''&q=''
                 @ encodeURIComponent (the (city req)) @ ''&days=7&aqi=no&alerts=yes''])
       \<and> (\<not> (present (lat req) \<and> present (lon req)) \<and> \<not> present (city req) \<longrightarrow>
            fetched (GET R E req) = []
            \<and> response (GET R E req) =
                \<lparr>status = 400,
                 body = JObj [(''error'', JStr ''Please provide either a city name or coordinates'')],
                 headers = []\<rparr>)"
proof -
  have key: "present (WEATHERAPI_KEY E)" "the (WEATHERAPI_KEY E) = k"
    using assms by (simp_all add: present_def)
  have coords: "fetched (GET R E req) = [requestUrl k (the (lat req) @ '','' @ the (lon req))]"
    if "present (lat req) \<and> present (lon req)"
  proof -
    have "queryParam req = Some (the (lat req) @ '','' @ the (lon req))"
      using that by (simp add: queryParam_def)
    from tryBlock_fetched [OF key(1) this] show ?thesis
      by (simp add: fetched_GET key(2))
  qed
  have town: "fetched (GET R E req) = [requestUrl k (the (city req))]"
    if "\<not> (present (lat req) \<and> present (lon req))" "present (city req)"
  proof -
    have "queryParam req = Some (the (city req))"
      using that by (auto simp: queryParam_def present_def split: option.splits)
    from tryBlock_fetched [OF key(1) this] show ?thesis
      by (simp add: fetched_GET key(2))
  qed
  have none: "GET R E req =
     \<lparr>response = \<lparr>status = 400,
        body = JObj [(''error'', JStr ''Please provide either a city name or coordinates'')],
        headers = []\<rparr>,
      fetched = [], console = []\<rparr>"
    if "\<not> (present (lat req) \<and> present (lon req))" "\<not> present (city req)"
  proof -
    have "queryParam req = None" using that by (auto simp: queryParam_def)
    from missing_input_run [OF key(1) this] show ?thesis .
  qed
  show ?thesis
    using coords town none by (auto simp: requestUrl_def)
qed

theorem query_form_and_single_call_witness:
  "fetched (GET plainRuntime \<lparr>WEATHERAPI_KEY = Some ''k1'', fetch = offline\<rparr>
       \<lparr>city = None, lat = Some ''51.5'', lon = Some ''-0.1''\<rparr>) =
     [''https://api.weatherapi.com/v1/forecast.json?key=k1&q=51.5%2C-0.1&days=7&aqi=no&alerts=yes'']
   \<and> fetched (GET plainRuntime \<lparr>WEATHERAPI_KEY = Some ''k1'', fetch = offline\<rparr>
       \<lparr>city = Some ''New York'', lat = None, lon = None\<rparr>) =
     [''https://api.weatherapi.com/v1/forecast.json?key=k1&q=New%20York&days=7&aqi=no&alerts=yes'']
   \<and> fetched (GET plainRuntime \<lparr>WEATHERAPI_KEY = Some ''k1'', fetch = offline\<rparr>
       \<lparr>city = None, lat = Some ''51.5'', lon = None\<rparr>) = []
   \<and> status (response (GET plainRuntime \<lparr>WEATHERAPI_KEY = Some ''k1'', fetch = offline\<rparr>
       \<lparr>city = None, lat = Some ''51.5'', lon = None\<rparr>)) = 400"
proof -
  let ?E = "\<lparr>WEATHERAPI_KEY = Some ''k1'', fetch = offline\<rparr>"
  have k: "WEATHERAPI_KEY ?E = Some ''k1''" "''k1'' \<noteq> []" by simp_all
  have e1: "encodeURIComponent (''51.5'' @ '','' @ ''-0.1'') = ''51.5%2C-0.1''" by code_simp
  have e2: "encodeURIComponent ''New York'' = ''New%20York''" by code_simp
  show ?thesis
    using query_form_and_single_call [OF k, of "\<lparr>city = None, lat = Some ''51.5'', lon = Some ''-0.1''\<rparr>" plainRuntime]
      query_form_and_single_call [OF k, of "\<lparr>city = Some ''New York'', lat = None, lon = None\<rparr>" plainRuntime]
      query_form_and_single_call [OF k, of "\<lparr>city = None, lat = Some ''51.5'', lon = None\<rparr>" plainRuntime]
      e1 e2
    by (simp add: present_def)
qed

text \<open>
  C7, as stated, fails in two ways. The provider's own error answer (status 400 with a
  JSON body that has none of the three sections) is passed on with its status, by the
  guard of lines 155--162; and a success answer whose body is the JSON value \<^verbatim>\<open>null\<close>
  makes \<^verbatim>\<open>data.location\<close> throw, which the \<^verbatim>\<open>catch\<close> block answers with status 500.
\<close>

theorem sectionless_answers_without_502:
  "property sampleErrorBody ''location'' = JUndefined
   \<and> response (GET plainRuntime \<lparr>WEATHERAPI_KEY = Some ''k1'', fetch = answers False 400 sampleErrorBody\<rparr>
        \<lparr>city = Some ''Zzz'', lat = None, lon = None\<rparr>) =
       \<lparr>status = 400,
        body = JObj [(''error'', JStr ''Weather service error: No matching location found.'')],
        headers = []\<rparr>
   \<and> response (GET plainRuntime \<lparr>WEATHERAPI_KEY = Some ''k1'', fetch = answers True 200 JNull\<rparr>
        \<lparr>city = Some ''London'', lat = None, lon = None\<rparr>) =
       \<lparr>status = 500,
        body = JObj [(''error'', JStr ''An unexpected error occurred while fetching weather data'')],
        headers = []\<rparr>"
  by code_simp

text \<open>
  C7, amended. When the provider answers with a success status and a body that decodes
  to a JSON value other than \<^verbatim>\<open>null\<close>, and that value lacks the location, the current
  conditions or the forecast-day array (the section is missing, or holds \<^verbatim>\<open>null\<close> or
  another falsy value), the answer is status 502 with
  \<^verbatim>\<open>{error: "Invalid weather data received from service"}\<close>, never a 200.
\<close>

theorem missing_section_gives_502:
  assumes "present (WEATHERAPI_KEY E)" and "queryParam req = Some q"
    and "fetch E (requestUrl (the (WEATHERAPI_KEY E)) q) = Resolves w"
    and "ok w" and "json w = Inr data" and "\<not> nullish data"
    and "\<not> truthy (property data ''location'') \<or> \<not> truthy (property data ''current'')
         \<or> \<not> truthy (optGet (property data ''forecast'') ''forecastday'')"
  shows "response (GET R E req) =
           \<lparr>status = 502,
            body = JObj [(''error'', JStr ''Invalid weather data received from service'')],
            headers = []\<rparr>
       \<and> status (response (GET R E req)) \<noteq> 200"
proof -
  have "invalidPayload data = Some True"
    using assms(6,7) by (rule invalidPayload_refuses)
  then have "processPayload R data =
      (Inr (NextResponse_json (errorBody ''Invalid weather data received from service'') 502 []), [])"
    by (simp add: processPayload_def)
  then show ?thesis
    using assms(1-5)
    by (simp add: GET_def tryBlock_def Let_def NextResponse_json_def errorBody_def)
qed

theorem missing_section_gives_502_witness:
  "\<not> truthy (property payloadWithoutCurrent ''current'')
   \<and> response (GET plainRuntime \<lparr>WEATHERAPI_KEY = Some ''k1'', fetch = answers True 200 payloadWithoutCurrent\<rparr>
        \<lparr>city = Some ''London'', lat = None, lon = None\<rparr>) =
       \<lparr>status = 502,
        body = JObj [(''error'', JStr ''Invalid weather data received from service'')],
        headers = []\<rparr>"
proof -
  let ?E = "\<lparr>WEATHERAPI_KEY = Some ''k1'', fetch = answers True 200 payloadWithoutCurrent\<rparr>"
  let ?req = "\<lparr>city = Some ''London'', lat = None, lon = None\<rparr>"
  let ?w = "\<lparr>ok = True, upstream_status = 200, json = Inr payloadWithoutCurrent\<rparr>"
  have 1: "present (WEATHERAPI_KEY ?E)" by (simp add: present_def)
  have 2: "queryParam ?req = Some ''London''" by (simp add: queryParam_def present_def)
  have 3: "fetch ?E (requestUrl (the (WEATHERAPI_KEY ?E)) ''London'') = Resolves ?w"
    by (simp add: answers_def)
  have 4: "ok ?w" and 5: "json ?w = Inr payloadWithoutCurrent" by simp_all
  have 6: "\<not> nullish payloadWithoutCurrent" by (simp add: payloadWithoutCurrent_def)
  have 7: "\<not> truthy (property payloadWithoutCurrent ''current'')"
    by (simp add: payloadWithoutCurrent_def)
  from missing_section_gives_502 [OF 1 2 3 4 5 6, of plainRuntime] 7 show ?thesis by simp
qed

section \<open>Properties of the normalizer\<close>

subsection \<open>Auxiliary facts\<close>

lemma get_Some: "get v k = Some x \<longleftrightarrow> \<not> nullish v \<and> x = property v k"
  by (auto simp: get_def)

lemma mapArray_Some:
  "mapArray f xs = Some ys \<Longrightarrow>
   length ys = length xs \<and> (\<forall>i<length xs. f (xs ! i) = Some (ys ! i))"
proof (induction xs arbitrary: ys)
  case Nil
  then show ?case by simp
next
  case (Cons x xs)
  then obtain y ys' where y: "f x = Some y" and ys': "mapArray f xs = Some ys'"
    and eq: "ys = y # ys'"
    by (auto simp: bind_eq_Some_conv)
  from Cons.IH [OF ys'] have len: "length ys' = length xs"
    and nth: "\<forall>i<length xs. f (xs ! i) = Some (ys' ! i)" by simp_all
  show ?case using y eq len nth by (auto simp: nth_Cons split: nat.splits)
qed

lemma call_map_Some:
  "call_map f v = Some w \<Longrightarrow> \<exists>xs ys. v = JArr xs \<and> w = JArr ys \<and> mapArray f xs = Some ys"
  by (cases v) auto

lemma hours_Some:
  assumes "(if truthy hour \<and> isArray hour then call_map f hour else Some (JArr [])) = Some w"
  shows "\<exists>ys. w = JArr ys \<and> mapArray f (elems hour) = Some ys"
proof (cases "isArray hour")
  case True
  then obtain xs where "hour = JArr xs" by (cases hour) auto
  with assms show ?thesis by auto
next
  case False
  then have "elems hour = []" by (cases hour) auto
  with False assms show ?thesis by auto
qed

lemma Math_round_whole: "Math_round R v = Some w \<Longrightarrow> \<not> fractional w"
proof -
  assume "Math_round R v = Some w"
  then obtain n where "w = JNum (roundNumber n)" by (auto simp: Math_round_def)
  then show ?thesis by (cases n) (simp_all add: fractional_def)
qed

lemma Math_round_Finite: "Math_round R (JNum (Finite q)) = Some (JNum (Finite (of_int (round q))))"
  by (simp add: Math_round_def)

lemma wire_undefined: "wire v = JUndefined \<longleftrightarrow> v = JUndefined"
  by (cases v) (auto split: number.splits)

lemma map_of_wire:
  "map_of (filter (\<lambda>kv. snd kv \<noteq> JUndefined) (map (map_prod (\<lambda>k. k) wire) kvs)) k =
     (case map_of kvs k of None \<Rightarrow> None | Some v \<Rightarrow> if v = JUndefined then None else Some (wire v))"
  if "distinct (map fst kvs)"
  using that
proof (induction kvs)
  case Nil
  then show ?case by simp
next
  case (Cons kv kvs)
  obtain a v where kv: "kv = (a, v)" by (cases kv)
  have "map_of kvs a = None" using Cons.prems kv by (simp add: map_of_eq_None_iff)
  then show ?case using Cons kv by (auto simp: wire_undefined)
qed

lemma property_wire:
  "distinct (map fst kvs) \<Longrightarrow> property (wire (JObj kvs)) k = wire (property (JObj kvs) k)"
  by (simp add: map_of_wire split: option.splits)

lemma keys_wire:
  "distinct (map fst kvs) \<Longrightarrow>
   k \<in> set (keys (wire (JObj kvs))) \<longleftrightarrow> property (JObj kvs) k \<noteq> JUndefined"
proof -
  assume d: "distinct (map fst kvs)"
  let ?kvs' = "filter (\<lambda>kv. snd kv \<noteq> JUndefined) (map (map_prod (\<lambda>k. k) wire) kvs)"
  have "k \<in> set (keys (wire (JObj kvs))) \<longleftrightarrow> map_of ?kvs' k \<noteq> None"
    by (simp add: map_of_eq_None_iff)
  also have "\<dots> \<longleftrightarrow> property (JObj kvs) k \<noteq> JUndefined"
    by (simp add: map_of_wire [OF d] split: option.splits)
  finally show ?thesis .
qed

lemma tomorrowPart_single:
  "length xs \<le> 1 \<Longrightarrow> tomorrowPart R (JArr xs) = Some (JArr [], JNull)"
  by (simp add: tomorrowPart_def lengthOf_def greaterThan_def)

lemma keys_JObj: "keys v = k # ks \<Longrightarrow> \<exists>kvs. v = JObj kvs \<and> map fst kvs = k # ks"
  by (cases v) auto

lemma tomorrowPart_Some:
  assumes "tomorrowPart R (JArr xs) = Some (tomH, tomS)" and "1 < length xs"
  shows "\<not> nullish (xs ! 1) \<and> \<not> nullish (property (xs ! 1) ''day'')
    \<and> \<not> nullish (property (property (xs ! 1) ''day'') ''condition'')
    \<and> Math_round R (property (property (xs ! 1) ''day'') ''avgtemp_c'') = Some (property tomS ''temp'')
    \<and> Math_round R (property (property (xs ! 1) ''day'') ''mintemp_c'') = Some (property tomS ''min'')
    \<and> Math_round R (property (property (xs ! 1) ''day'') ''maxtemp_c'') = Some (property tomS ''max'')
    \<and> call_toLowerCase (property (property (property (xs ! 1) ''day'') ''condition'') ''text'')
        = Some (property tomS ''condition'')
    \<and> property tomS ''description'' = property (property (property (xs ! 1) ''day'') ''condition'') ''text''
    \<and> property tomS ''icon'' = property (property (property (xs ! 1) ''day'') ''condition'') ''icon''
    \<and> keys tomS = [''temp'', ''min'', ''max'', ''condition'', ''description'', ''icon'']
    \<and> (if truthy (property (xs ! 1) ''hour'') \<and> isArray (property (xs ! 1) ''hour'')
        then call_map (mapHour R) (property (xs ! 1) ''hour'') else Some (JArr [])) = Some tomH"
  using assms unfolding tomorrowPart_def
  by (auto simp: bind_eq_Some_conv get_Some lengthOf_def greaterThan_def)

lemma mapDay_Some:
  assumes "mapDay R day = Some e"
  shows "\<not> nullish day \<and> \<not> nullish (property day ''day'')
    \<and> \<not> nullish (property (property day ''day'') ''condition'')
    \<and> property e ''dt'' = property day ''date_epoch''
    \<and> Math_round R (property (property day ''day'') ''avgtemp_c'') = Some (property e ''temp'')
    \<and> Math_round R (property (property day ''day'') ''mintemp_c'') = Some (property e ''min'')
    \<and> Math_round R (property (property day ''day'') ''maxtemp_c'') = Some (property e ''max'')
    \<and> call_toLowerCase (property (property (property day ''day'') ''condition'') ''text'')
        = Some (property e ''condition'')
    \<and> property e ''description'' = property (property (property day ''day'') ''condition'') ''text''
    \<and> property e ''icon'' = property (property (property day ''day'') ''condition'') ''icon''
    \<and> keys e = [''dt'', ''temp'', ''min'', ''max'', ''condition'', ''description'', ''icon'']"
  using assms unfolding mapDay_def
  by (auto simp: bind_eq_Some_conv get_Some)

lemma mapHour_Some:
  assumes "mapHour R h = Some e"
  shows "\<not> nullish h \<and> \<not> nullish (property h ''condition'')
    \<and> call_substring (property h ''time'') 11 16 = Some (property e ''time'')
    \<and> Math_round R (property h ''temp_c'') = Some (property e ''temp'')
    \<and> call_toLowerCase (property (property h ''condition'') ''text'') = Some (property e ''condition'')
    \<and> property e ''humidity'' = property h ''humidity''
    \<and> Math_round R (property h ''wind_kph'') = Some (property e ''windSpeed'')
    \<and> keys e = [''time'', ''temp'', ''condition'', ''humidity'', ''windSpeed'']"
  using assms unfolding mapHour_def
  by (auto simp: bind_eq_Some_conv get_Some)

lemma normalize_Some:
  assumes "normalize R data = Some r"
  shows "\<not> nullish data \<and> \<not> nullish (property data ''current'')
    \<and> \<not> nullish (property data ''forecast'')
    \<and> (\<exists>today. index (property (property data ''forecast'') ''forecastday'') 0 = Some today
         \<and> \<not> nullish today \<and> \<not> nullish (property today ''day'')
         \<and> (if truthy (property today ''hour'') \<and> isArray (property today ''hour'')
             then call_map (mapHour R) (property today ''hour'') else Some (JArr []))
            = Some (property r ''hourlyForecast'')
         \<and> Math_round R (property (property today ''day'') ''maxtemp_c'') = Some (property r ''high'')
         \<and> Math_round R (property (property today ''day'') ''mintemp_c'') = Some (property r ''low''))
    \<and> tomorrowPart R (property (property data ''forecast'') ''forecastday'')
        = Some (property r ''tomorrowHourlyForecast'', property r ''tomorrowDaySummary'')
    \<and> call_map (mapDay R) (property (property data ''forecast'') ''forecastday'')
        = Some (property r ''dailyForecast'')
    \<and> (\<exists>mapped. call_map (mapAlert R) (jsOr (optGet (property data ''alerts'') ''alert'') (JArr []))
          = Some mapped
         \<and> property r ''alerts'' = (if 0 < length (elems mapped) then mapped else JUndefined))
    \<and> Math_round R (property (property data ''current'') ''temp_c'') = Some (property r ''temperature'')
    \<and> Math_round R (property (property data ''current'') ''wind_kph'') = Some (property r ''windSpeed'')
    \<and> Math_round R (property (property data ''current'') ''vis_km'') = Some (property r ''visibility'')
    \<and> Math_round R (property (property data ''current'') ''feelslike_c'') = Some (property r ''feelsLike'')
    \<and> property r ''humidity'' = property (property data ''current'') ''humidity''
    \<and> property r ''windDirection'' = property (property data ''current'') ''wind_degree''
    \<and> property r ''uvIndex'' = property (property data ''current'') ''uv''
    \<and> property r ''pressure'' = property (property data ''current'') ''pressure_mb''
    \<and> keys r =
        [''city'', ''country'', ''temperature'', ''condition'', ''description'', ''humidity'',
         ''windSpeed'', ''windDirection'', ''uvIndex'', ''visibility'', ''pressure'', ''feelsLike'',
         ''high'', ''low'', ''sunrise'', ''sunset'', ''timezone'', ''coordinates'', ''hourlyForecast'',
         ''tomorrowHourlyForecast'', ''tomorrowDaySummary'', ''dailyForecast'', ''alerts'']"
  using assms unfolding normalize_def
  by (auto simp: bind_eq_Some_conv get_Some)

lemma normalize_today:
  assumes "normalize R data = Some r"
  shows "\<exists>today. index (property (property data ''forecast'') ''forecastday'') 0 = Some today
         \<and> \<not> nullish today \<and> \<not> nullish (property today ''day'')
         \<and> (if truthy (property today ''hour'') \<and> isArray (property today ''hour'')
             then call_map (mapHour R) (property today ''hour'') else Some (JArr []))
            = Some (property r ''hourlyForecast'')
         \<and> Math_round R (property (property today ''day'') ''maxtemp_c'') = Some (property r ''high'')
         \<and> Math_round R (property (property today ''day'') ''mintemp_c'') = Some (property r ''low'')"
  using normalize_Some [OF assms] by simp

lemma normalize_tomorrow:
  assumes "normalize R data = Some r"
  shows "tomorrowPart R (property (property data ''forecast'') ''forecastday'')
        = Some (property r ''tomorrowHourlyForecast'', property r ''tomorrowDaySummary'')"
  using normalize_Some [OF assms] by simp

lemma normalize_daily:
  assumes "normalize R data = Some r"
  shows "call_map (mapDay R) (property (property data ''forecast'') ''forecastday'')
        = Some (property r ''dailyForecast'')"
  using normalize_Some [OF assms] by simp

lemma normalize_alerts:
  assumes "normalize R data = Some r"
  shows "\<exists>mapped. call_map (mapAlert R) (jsOr (sourceAlerts data) (JArr [])) = Some mapped
         \<and> property r ''alerts'' = (if 0 < length (elems mapped) then mapped else JUndefined)"
  using normalize_Some [OF assms] unfolding sourceAlerts_def by simp

lemma normalize_keys:
  assumes "normalize R data = Some r"
  shows "keys r =
        [''city'', ''country'', ''temperature'', ''condition'', ''description'', ''humidity'',
         ''windSpeed'', ''windDirection'', ''uvIndex'', ''visibility'', ''pressure'', ''feelsLike'',
         ''high'', ''low'', ''sunrise'', ''sunset'', ''timezone'', ''coordinates'', ''hourlyForecast'',
         ''tomorrowHourlyForecast'', ''tomorrowDaySummary'', ''dailyForecast'', ''alerts'']"
  using normalize_Some [OF assms] by simp

lemma normalize_days:
  assumes "normalize R data = Some r"
  shows "property (property data ''forecast'') ''forecastday'' = JArr (forecastDays data)
    \<and> forecastDays data \<noteq> []
    \<and> (\<exists>ys. property r ''dailyForecast'' = JArr ys
          \<and> mapArray (mapDay R) (forecastDays data) = Some ys)"
proof -
  let ?fd = "property (property data ''forecast'') ''forecastday''"
  from normalize_today [OF assms] obtain today where
    today: "index ?fd 0 = Some today" "\<not> nullish today"
    by (elim exE conjE)
  from call_map_Some [OF normalize_daily [OF assms]] obtain xs ys where
    xs: "?fd = JArr xs" and ys: "property r ''dailyForecast'' = JArr ys"
    "mapArray (mapDay R) xs = Some ys" by (elim exE conjE)
  have days: "forecastDays data = xs" by (simp add: forecastDays_def xs)
  have "xs \<noteq> []"
  proof
    assume "xs = []"
    with today(1) xs have "today = JUndefined" by simp
    with today(2) show False by simp
  qed
  then show ?thesis using xs ys days by simp
qed

lemma normalize_first_day:
  assumes "normalize R data = Some r"
  shows "\<not> nullish (forecastDays data ! 0)"
    and "\<exists>ys. property r ''hourlyForecast'' = JArr ys
           \<and> mapArray (mapHour R) (elems (property (forecastDays data ! 0) ''hour'')) = Some ys"
    and "Math_round R (property (property (forecastDays data ! 0) ''day'') ''maxtemp_c'')
           = Some (property r ''high'')"
    and "Math_round R (property (property (forecastDays data ! 0) ''day'') ''mintemp_c'')
           = Some (property r ''low'')"
proof -
  let ?fd = "property (property data ''forecast'') ''forecastday''"
  from normalize_today [OF assms] obtain today where
    today: "index ?fd 0 = Some today" "\<not> nullish today"
      "(if truthy (property today ''hour'') \<and> isArray (property today ''hour'')
        then call_map (mapHour R) (property today ''hour'') else Some (JArr []))
       = Some (property r ''hourlyForecast'')"
      "Math_round R (property (property today ''day'') ''maxtemp_c'') = Some (property r ''high'')"
      "Math_round R (property (property today ''day'') ''mintemp_c'') = Some (property r ''low'')"
    by (elim exE conjE)
  from normalize_days [OF assms] have "?fd = JArr (forecastDays data)" "forecastDays data \<noteq> []"
    by simp_all
  with today(1) have eq: "today = forecastDays data ! 0" by simp
  show "\<not> nullish (forecastDays data ! 0)" using today(2) eq by simp
  show "\<exists>ys. property r ''hourlyForecast'' = JArr ys
           \<and> mapArray (mapHour R) (elems (property (forecastDays data ! 0) ''hour'')) = Some ys"
    using hours_Some [OF today(3)] unfolding eq .
  show "Math_round R (property (property (forecastDays data ! 0) ''day'') ''maxtemp_c'')
           = Some (property r ''high'')" using today(4) unfolding eq .
  show "Math_round R (property (property (forecastDays data ! 0) ''day'') ''mintemp_c'')
           = Some (property r ''low'')" using today(5) unfolding eq .
qed

lemma normalize_object:
  assumes "normalize R data = Some r"
  shows "\<exists>kvs. r = JObj kvs \<and> distinct (map fst kvs)"
proof -
  from keys_JObj [OF normalize_keys [OF assms]] obtain kvs where "r = JObj kvs" and
    "map fst kvs =
        [''city'', ''country'', ''temperature'', ''condition'', ''description'', ''humidity'',
         ''windSpeed'', ''windDirection'', ''uvIndex'', ''visibility'', ''pressure'', ''feelsLike'',
         ''high'', ''low'', ''sunrise'', ''sunset'', ''timezone'', ''coordinates'', ''hourlyForecast'',
         ''tomorrowHourlyForecast'', ''tomorrowDaySummary'', ''dailyForecast'', ''alerts'']"
    by (elim exE conjE)
  then show ?thesis by simp
qed

lemma normalize_wire:
  assumes "normalize R data = Some r"
  shows "property (wire r) k = wire (property r k)"
    and "k \<in> set (keys (wire r)) \<longleftrightarrow> property r k \<noteq> JUndefined"
proof -
  from normalize_object [OF assms] obtain kvs where r: "r = JObj kvs" "distinct (map fst kvs)"
    by (elim exE conjE)
  show "property (wire r) k = wire (property r k)"
    unfolding r(1) by (rule property_wire [OF r(2)])
  show "k \<in> set (keys (wire r)) \<longleftrightarrow> property r k \<noteq> JUndefined"
    unfolding r(1) by (rule keys_wire [OF r(2)])
qed

text \<open>
  C3. When the payload's alert list is absent (or another falsy value) or empty, the
  response record holds \<^verbatim>\<open>alerts: undefined\<close>, so the transmitted object has no
  \<^verbatim>\<open>alerts\<close> key; when the list has at least one alert, \<^verbatim>\<open>alerts\<close> is transmitted and
  holds one mapped entry per source alert, in order.
\<close>

theorem alerts_omitted_or_mapped:
  assumes "normalize R data = Some r"
  shows "(\<not> truthy (sourceAlerts data) \<or> sourceAlerts data = JArr [] \<longrightarrow>
            property r ''alerts'' = JUndefined \<and> ''alerts'' \<notin> set (keys (wire r)))
       \<and> (\<forall>as. sourceAlerts data = JArr as \<and> as \<noteq> [] \<longrightarrow>
            (\<exists>ys. property r ''alerts'' = JArr ys \<and> length ys = length as
               \<and> (\<forall>i<length as. mapAlert R (as ! i) = Some (ys ! i))
               \<and> ''alerts'' \<in> set (keys (wire r))))"
proof -
  from normalize_alerts [OF assms] obtain mapped where
    mapped: "call_map (mapAlert R) (jsOr (sourceAlerts data) (JArr [])) = Some mapped"
    and field: "property r ''alerts'' = (if 0 < length (elems mapped) then mapped else JUndefined)"
    by (elim exE conjE)
  have none: "property r ''alerts'' = JUndefined \<and> ''alerts'' \<notin> set (keys (wire r))"
    if "\<not> truthy (sourceAlerts data) \<or> sourceAlerts data = JArr []"
  proof -
    have "jsOr (sourceAlerts data) (JArr []) = JArr []"
      using that by (auto simp: jsOr_def)
    with mapped have "mapped = JArr []" by simp
    with field have "property r ''alerts'' = JUndefined" by simp
    then show ?thesis by (simp add: normalize_wire(2) [OF assms])
  qed
  have some: "\<exists>ys. property r ''alerts'' = JArr ys \<and> length ys = length as
               \<and> (\<forall>i<length as. mapAlert R (as ! i) = Some (ys ! i))
               \<and> ''alerts'' \<in> set (keys (wire r))"
    if "sourceAlerts data = JArr as" "as \<noteq> []" for as
  proof -
    have "jsOr (sourceAlerts data) (JArr []) = JArr as"
      using that by (simp add: jsOr_def)
    with mapped obtain ys where ys: "mapped = JArr ys" "mapArray (mapAlert R) as = Some ys"
      by auto
    from mapArray_Some [OF ys(2)] have len: "length ys = length as"
      and nth: "\<forall>i<length as. mapAlert R (as ! i) = Some (ys ! i)" by simp_all
    have "property r ''alerts'' = JArr ys" using field ys(1) len that(2) by simp
    then show ?thesis using len nth by (simp add: normalize_wire(2) [OF assms])
  qed
  show ?thesis using none some by blast
qed

lemma normalize_second_day:
  assumes "normalize R data = Some r" and "1 < length (forecastDays data)"
  shows "tomorrowPart R (JArr (forecastDays data))
           = Some (property r ''tomorrowHourlyForecast'', property r ''tomorrowDaySummary'')"
    and "\<exists>ys. property r ''tomorrowHourlyForecast'' = JArr ys
           \<and> mapArray (mapHour R) (elems (property (forecastDays data ! 1) ''hour'')) = Some ys"
proof -
  from normalize_days [OF assms(1)] normalize_tomorrow [OF assms(1)]
  show part: "tomorrowPart R (JArr (forecastDays data))
           = Some (property r ''tomorrowHourlyForecast'', property r ''tomorrowDaySummary'')"
    by simp
  from tomorrowPart_Some [OF part assms(2)]
  have "(if truthy (property (forecastDays data ! 1) ''hour'')
            \<and> isArray (property (forecastDays data ! 1) ''hour'')
         then call_map (mapHour R) (property (forecastDays data ! 1) ''hour'')
         else Some (JArr [])) = Some (property r ''tomorrowHourlyForecast'')"
    by (elim conjE)
  from hours_Some [OF this]
  show "\<exists>ys. property r ''tomorrowHourlyForecast'' = JArr ys
           \<and> mapArray (mapHour R) (elems (property (forecastDays data ! 1) ''hour'')) = Some ys" .
qed

lemma normalize_single_day:
  assumes "normalize R data = Some r" and "length (forecastDays data) = 1"
  shows "property r ''tomorrowHourlyForecast'' = JArr []"
    and "property r ''tomorrowDaySummary'' = JNull"
proof -
  from normalize_days [OF assms(1)] normalize_tomorrow [OF assms(1)]
  have "tomorrowPart R (JArr (forecastDays data))
           = Some (property r ''tomorrowHourlyForecast'', property r ''tomorrowDaySummary'')"
    by simp
  moreover have "tomorrowPart R (JArr (forecastDays data)) = Some (JArr [], JNull)"
    using assms(2) by (simp add: tomorrowPart_single)
  ultimately show "property r ''tomorrowHourlyForecast'' = JArr []"
    and "property r ''tomorrowDaySummary'' = JNull" by simp_all
qed

lemma not_array_elems: "\<not> isArray v \<Longrightarrow> elems v = []"
  by (cases v) auto

text \<open>
  C5, as stated, fails in its last clause: for a single-day payload the response record
  holds \<^verbatim>\<open>tomorrowDaySummary: null\<close>, and \<^verbatim>\<open>null\<close> is transmitted; the field is present.
\<close>

theorem single_day_summary_is_transmitted:
  "normalize plainRuntime (samplePayload [sampleDay (JArr (replicate 24 sampleHour))] (JArr [])) \<noteq> None
   \<and> ''tomorrowDaySummary'' \<in> set (keys (wire (the (normalize plainRuntime
        (samplePayload [sampleDay (JArr (replicate 24 sampleHour))] (JArr []))))))
   \<and> property (wire (the (normalize plainRuntime
        (samplePayload [sampleDay (JArr (replicate 24 sampleHour))] (JArr []))))) ''tomorrowDaySummary''
       = JNull"
  by code_simp

text \<open>
  C5, amended. For every payload the normalizer accepts: when today's \<^verbatim>\<open>hour\<close> field is
  absent or not an array, \<^verbatim>\<open>hourlyForecast\<close> is the empty array, in the record and as
  transmitted; likewise \<^verbatim>\<open>tomorrowHourlyForecast\<close> when a second day exists and its
  \<^verbatim>\<open>hour\<close> field is absent or not an array; and for a single forecast day with 24 hour
  entries, \<^verbatim>\<open>hourlyForecast\<close> has exactly 24 entries, \<^verbatim>\<open>tomorrowHourlyForecast\<close> is the empty
  array and \<^verbatim>\<open>tomorrowDaySummary\<close> is \<^verbatim>\<open>null\<close>.
\<close>

theorem hourly_lists_never_missing:
  assumes "normalize R data = Some r"
  shows "(\<not> isArray (property (forecastDays data ! 0) ''hour'') \<longrightarrow>
            property r ''hourlyForecast'' = JArr []
            \<and> property (wire r) ''hourlyForecast'' = JArr [])
       \<and> (1 < length (forecastDays data) \<and> \<not> isArray (property (forecastDays data ! 1) ''hour'') \<longrightarrow>
            property r ''tomorrowHourlyForecast'' = JArr []
            \<and> property (wire r) ''tomorrowHourlyForecast'' = JArr [])
       \<and> (length (forecastDays data) = 1
            \<and> isArray (property (forecastDays data ! 0) ''hour'')
            \<and> length (elems (property (forecastDays data ! 0) ''hour'')) = 24 \<longrightarrow>
            isArray (property r ''hourlyForecast'')
            \<and> length (elems (property r ''hourlyForecast'')) = 24
            \<and> property r ''tomorrowHourlyForecast'' = JArr []
            \<and> property (wire r) ''tomorrowHourlyForecast'' = JArr []
            \<and> property r ''tomorrowDaySummary'' = JNull
            \<and> property (wire r) ''tomorrowDaySummary'' = JNull)"
proof -
  from normalize_first_day(2) [OF assms] obtain ys where
    ys: "property r ''hourlyForecast'' = JArr ys"
      "mapArray (mapHour R) (elems (property (forecastDays data ! 0) ''hour'')) = Some ys"
    by (elim exE conjE)
  have today: "property r ''hourlyForecast'' = JArr []
            \<and> property (wire r) ''hourlyForecast'' = JArr []"
    if "\<not> isArray (property (forecastDays data ! 0) ''hour'')"
  proof -
    from ys(2) not_array_elems [OF that] have "ys = []" by simp
    with ys(1) show ?thesis by (simp add: normalize_wire(1) [OF assms])
  qed
  have tomorrow: "property r ''tomorrowHourlyForecast'' = JArr []
            \<and> property (wire r) ''tomorrowHourlyForecast'' = JArr []"
    if "1 < length (forecastDays data)" "\<not> isArray (property (forecastDays data ! 1) ''hour'')"
  proof -
    from normalize_second_day(2) [OF assms that(1)] obtain zs where
      zs: "property r ''tomorrowHourlyForecast'' = JArr zs"
        "mapArray (mapHour R) (elems (property (forecastDays data ! 1) ''hour'')) = Some zs"
      by (elim exE conjE)
    from zs(2) not_array_elems [OF that(2)] have "zs = []" by simp
    with zs(1) show ?thesis by (simp add: normalize_wire(1) [OF assms])
  qed
  have single: "isArray (property r ''hourlyForecast'')
            \<and> length (elems (property r ''hourlyForecast'')) = 24
            \<and> property r ''tomorrowHourlyForecast'' = JArr []
            \<and> property (wire r) ''tomorrowHourlyForecast'' = JArr []
            \<and> property r ''tomorrowDaySummary'' = JNull
            \<and> property (wire r) ''tomorrowDaySummary'' = JNull"
    if "length (forecastDays data) = 1"
      "length (elems (property (forecastDays data ! 0) ''hour'')) = 24"
  proof -
    from mapArray_Some [OF ys(2)] that(2) have "length ys = 24" by simp
    with ys(1) normalize_single_day [OF assms that(1)] show ?thesis
      by (simp add: normalize_wire(1) [OF assms])
  qed
  show ?thesis using today tomorrow single by blast
qed

theorem hourly_lists_never_missing_witness:
  "normalize plainRuntime (samplePayload [sampleDay JNull, sampleDay (JStr ''none'')] (JArr [])) \<noteq> None
   \<and> property (wire (the (normalize plainRuntime
        (samplePayload [sampleDay JNull, sampleDay (JStr ''none'')] (JArr []))))) ''hourlyForecast'' = JArr []
   \<and> property (wire (the (normalize plainRuntime
        (samplePayload [sampleDay JNull, sampleDay (JStr ''none'')] (JArr []))))) ''tomorrowHourlyForecast'' = JArr []
   \<and> normalize plainRuntime (samplePayload [sampleDay (JArr (replicate 24 sampleHour))] (JArr [])) \<noteq> None
   \<and> length (elems (property (the (normalize plainRuntime
        (samplePayload [sampleDay (JArr (replicate 24 sampleHour))] (JArr [])))) ''hourlyForecast'')) = 24
   \<and> property (the (normalize plainRuntime
        (samplePayload [sampleDay (JArr (replicate 24 sampleHour))] (JArr [])))) ''tomorrowDaySummary'' = JNull"
proof -
  let ?P = "samplePayload [sampleDay JNull, sampleDay (JStr ''none'')] (JArr [])"
  let ?Q = "samplePayload [sampleDay (JArr (replicate 24 sampleHour))] (JArr [])"
  have p: "normalize plainRuntime ?P \<noteq> None" by code_simp
  have q: "normalize plainRuntime ?Q \<noteq> None" by code_simp
  have dp: "forecastDays ?P = [sampleDay JNull, sampleDay (JStr ''none'')]"
    by (simp add: forecastDays_def samplePayload_def)
  have dq: "forecastDays ?Q = [sampleDay (JArr (replicate 24 sampleHour))]"
    by (simp add: forecastDays_def samplePayload_def)
  have hp: "\<not> isArray (property (sampleDay JNull) ''hour'')"
    "\<not> isArray (property (sampleDay (JStr ''none'')) ''hour'')"
    by (simp_all add: sampleDay_def)
  have hq: "property (sampleDay (JArr (replicate 24 sampleHour))) ''hour'' = JArr (replicate 24 sampleHour)"
    by (simp add: sampleDay_def)
  from p have p': "normalize plainRuntime ?P = Some (the (normalize plainRuntime ?P))" by simp
  from q have q': "normalize plainRuntime ?Q = Some (the (normalize plainRuntime ?Q))" by simp
  show ?thesis
    using hourly_lists_never_missing [OF p'] hourly_lists_never_missing [OF q'] p q hp hq
    by (simp add: dp dq)
qed

lemma mapDay_typed:
  assumes "mapDay R day = Some e"
    and "property (property day ''day'') ''avgtemp_c'' = JNum (Finite a)"
    and "property (property day ''day'') ''mintemp_c'' = JNum (Finite lo)"
    and "property (property day ''day'') ''maxtemp_c'' = JNum (Finite hi)"
    and "property (property (property day ''day'') ''condition'') ''text'' = JStr t"
  shows "e = JObj
     [(''dt'', property day ''date_epoch''),
      (''temp'', JNum (Finite (of_int (round a)))),
      (''min'', JNum (Finite (of_int (round lo)))),
      (''max'', JNum (Finite (of_int (round hi)))),
      (''condition'', JStr (toLowerCase t)),
      (''description'', JStr t),
      (''icon'', property (property (property day ''day'') ''condition'') ''icon'')]"
  using assms unfolding mapDay_def
  by (auto simp: bind_eq_Some_conv get_Some Math_round_Finite)

text \<open>
  C6, as stated, fails in its bound: the handler maps every forecast day the provider
  sends and does not cut the list, so an eight-day payload gives eight entries.
\<close>

theorem eight_days_give_eight_entries:
  "normalize plainRuntime (samplePayload (replicate 8 (sampleDay JNull)) JNull) \<noteq> None
   \<and> length (elems (property (the (normalize plainRuntime
        (samplePayload (replicate 8 (sampleDay JNull)) JNull))) ''dailyForecast'')) = 8"
  by code_simp

text \<open>
  C6, amended. For every payload the normalizer accepts, \<^verbatim>\<open>dailyForecast\<close> holds exactly
  one entry per forecast day, in source order (so seven entries for seven days), and the
  entry of a day whose temperatures are numbers and whose condition text is a string is
  \<^verbatim>\<open>{dt, temp, min, max, condition, description, icon}\<close> with the day's epoch, the rounded
  average, minimum and maximum, the lower-cased text, the text itself and the icon.
\<close>

theorem daily_forecast_one_entry_per_day:
  assumes "normalize R data = Some r"
  shows "\<exists>ys. property r ''dailyForecast'' = JArr ys
       \<and> length ys = length (forecastDays data)
       \<and> (length (forecastDays data) = 7 \<longrightarrow> length ys = 7)
       \<and> (\<forall>i<length (forecastDays data). \<forall>a lo hi t.
            property (property (forecastDays data ! i) ''day'') ''avgtemp_c'' = JNum (Finite a)
            \<and> property (property (forecastDays data ! i) ''day'') ''mintemp_c'' = JNum (Finite lo)
            \<and> property (property (forecastDays data ! i) ''day'') ''maxtemp_c'' = JNum (Finite hi)
            \<and> property (property (property (forecastDays data ! i) ''day'') ''condition'') ''text''
                = JStr t
            \<longrightarrow> ys ! i = JObj
                 [(''dt'', property (forecastDays data ! i) ''date_epoch''),
                  (''temp'', JNum (Finite (of_int (round a)))),
                  (''min'', JNum (Finite (of_int (round lo)))),
                  (''max'', JNum (Finite (of_int (round hi)))),
                  (''condition'', JStr (toLowerCase t)),
                  (''description'', JStr t),
                  (''icon'', property (property (property (forecastDays data ! i) ''day'')
                               ''condition'') ''icon'')])"
proof -
  from normalize_days [OF assms] obtain ys where
    ys: "property r ''dailyForecast'' = JArr ys"
      "mapArray (mapDay R) (forecastDays data) = Some ys"
    by (elim exE conjE)
  from mapArray_Some [OF ys(2)] have len: "length ys = length (forecastDays data)"
    and nth: "\<forall>i<length (forecastDays data). mapDay R (forecastDays data ! i) = Some (ys ! i)"
    by simp_all
  have entry: "ys ! i = JObj
                 [(''dt'', property (forecastDays data ! i) ''date_epoch''),
                  (''temp'', JNum (Finite (of_int (round a)))),
                  (''min'', JNum (Finite (of_int (round lo)))),
                  (''max'', JNum (Finite (of_int (round hi)))),
                  (''condition'', JStr (toLowerCase t)),
                  (''description'', JStr t),
                  (''icon'', property (property (property (forecastDays data ! i) ''day'')
                               ''condition'') ''icon'')]"
    if "i < length (forecastDays data)"
      "property (property (forecastDays data ! i) ''day'') ''avgtemp_c'' = JNum (Finite a)"
      "property (property (forecastDays data ! i) ''day'') ''mintemp_c'' = JNum (Finite lo)"
      "property (property (forecastDays data ! i) ''day'') ''maxtemp_c'' = JNum (Finite hi)"
      "property (property (property (forecastDays data ! i) ''day'') ''condition'') ''text'' = JStr t"
    for i a lo hi t
  proof -
    from nth that(1) have "mapDay R (forecastDays data ! i) = Some (ys ! i)" by simp
    from mapDay_typed [OF this that(2-5)] show ?thesis .
  qed
  show ?thesis
  proof (intro exI [of _ ys] conjI allI impI)
    show "property r ''dailyForecast'' = JArr ys" by (rule ys(1))
    show "length ys = length (forecastDays data)" by (rule len)
    show "length ys = 7" if "length (forecastDays data) = 7" using that len by simp
  next
    fix i a lo hi t
    assume "i < length (forecastDays data)"
      and "property (property (forecastDays data ! i) ''day'') ''avgtemp_c'' = JNum (Finite a)
            \<and> property (property (forecastDays data ! i) ''day'') ''mintemp_c'' = JNum (Finite lo)
            \<and> property (property (forecastDays data ! i) ''day'') ''maxtemp_c'' = JNum (Finite hi)
            \<and> property (property (property (forecastDays data ! i) ''day'') ''condition'') ''text''
                = JStr t"
    then show "ys ! i = JObj
                 [(''dt'', property (forecastDays data ! i) ''date_epoch''),
                  (''temp'', JNum (Finite (of_int (round a)))),
                  (''min'', JNum (Finite (of_int (round lo)))),
                  (''max'', JNum (Finite (of_int (round hi)))),
                  (''condition'', JStr (toLowerCase t)),
                  (''description'', JStr t),
                  (''icon'', property (property (property (forecastDays data ! i) ''day'')
                               ''condition'') ''icon'')]"
      by (elim conjE) (rule entry)
  qed
qed

theorem daily_forecast_one_entry_per_day_witness:
  "normalize plainRuntime (samplePayload (replicate 7 (sampleDay JNull)) JNull) \<noteq> None
   \<and> length (elems (property (the (normalize plainRuntime
        (samplePayload (replicate 7 (sampleDay JNull)) JNull))) ''dailyForecast'')) = 7
   \<and> elems (property (the (normalize plainRuntime
        (samplePayload (replicate 7 (sampleDay JNull)) JNull))) ''dailyForecast'') ! 6 =
       JObj [(''dt'', JNum (Finite 1714521600)), (''temp'', JNum (Finite 12)),
             (''min'', JNum (Finite (- 2))), (''max'', JNum (Finite 18)),
             (''condition'', JStr ''partly cloudy''), (''description'', JStr ''Partly Cloudy''),
             (''icon'', JStr ''//cdn/116.png'')]"
proof -
  let ?P = "samplePayload (replicate 7 (sampleDay JNull)) JNull"
  have p: "normalize plainRuntime ?P \<noteq> None" by code_simp
  then have p': "normalize plainRuntime ?P = Some (the (normalize plainRuntime ?P))" by simp
  have days: "forecastDays ?P = replicate 7 (sampleDay JNull)"
    by (simp add: forecastDays_def samplePayload_def)
  have day: "property (property (sampleDay JNull) ''day'') ''avgtemp_c'' = JNum (Finite (123 / 10))"
    "property (property (sampleDay JNull) ''day'') ''mintemp_c'' = JNum (Finite (- 5 / 2))"
    "property (property (sampleDay JNull) ''day'') ''maxtemp_c'' = JNum (Finite (181 / 10))"
    "property (property (property (sampleDay JNull) ''day'') ''condition'') ''text'' = JStr ''Partly Cloudy''"
    "property (property (property (sampleDay JNull) ''day'') ''condition'') ''icon'' = JStr ''//cdn/116.png''"
    "property (sampleDay JNull) ''date_epoch'' = JNum (Finite 1714521600)"
    by (simp_all add: sampleDay_def sampleCondition_def)
  have lower: "toLowerCase ''Partly Cloudy'' = ''partly cloudy''" by code_simp
  have r1: "round (123 / 10 :: rat) = 12" and r2: "round (- 5 / 2 :: rat) = - 2"
    and r3: "round (181 / 10 :: rat) = 18" by code_simp+
  from daily_forecast_one_entry_per_day [OF p'] obtain ys where
    ys: "property (the (normalize plainRuntime ?P)) ''dailyForecast'' = JArr ys"
      "length ys = length (forecastDays ?P)"
      "\<forall>i<length (forecastDays ?P). \<forall>a lo hi t.
            property (property (forecastDays ?P ! i) ''day'') ''avgtemp_c'' = JNum (Finite a)
            \<and> property (property (forecastDays ?P ! i) ''day'') ''mintemp_c'' = JNum (Finite lo)
            \<and> property (property (forecastDays ?P ! i) ''day'') ''maxtemp_c'' = JNum (Finite hi)
            \<and> property (property (property (forecastDays ?P ! i) ''day'') ''condition'') ''text''
                = JStr t
            \<longrightarrow> ys ! i = JObj
                 [(''dt'', property (forecastDays ?P ! i) ''date_epoch''),
                  (''temp'', JNum (Finite (of_int (round a)))),
                  (''min'', JNum (Finite (of_int (round lo)))),
                  (''max'', JNum (Finite (of_int (round hi)))),
                  (''condition'', JStr (toLowerCase t)),
                  (''description'', JStr t),
                  (''icon'', property (property (property (forecastDays ?P ! i) ''day'')
                               ''condition'') ''icon'')]"
    by (elim exE conjE)
  have six: "forecastDays ?P ! 6 = sampleDay JNull" "6 < length (forecastDays ?P)"
    by (simp_all add: days)
  have "ys ! 6 = JObj
                 [(''dt'', property (sampleDay JNull) ''date_epoch''),
                  (''temp'', JNum (Finite (of_int (round (123 / 10 :: rat))))),
                  (''min'', JNum (Finite (of_int (round (- 5 / 2 :: rat))))),
                  (''max'', JNum (Finite (of_int (round (181 / 10 :: rat))))),
                  (''condition'', JStr (toLowerCase ''Partly Cloudy'')),
                  (''description'', JStr ''Partly Cloudy''),
                  (''icon'', property (property (property (sampleDay JNull) ''day'')
                               ''condition'') ''icon'')]"
    by (rule ys(3) [rule_format, OF six(2), unfolded six(1)]) (intro conjI day(1-4))
  then have "ys ! 6 = JObj [(''dt'', JNum (Finite 1714521600)), (''temp'', JNum (Finite 12)),
             (''min'', JNum (Finite (- 2))), (''max'', JNum (Finite 18)),
             (''condition'', JStr ''partly cloudy''), (''description'', JStr ''Partly Cloudy''),
             (''icon'', JStr ''//cdn/116.png'')]"
    unfolding day lower r1 r2 r3 by simp
  with p ys(1,2) days show ?thesis by simp
qed

theorem alerts_omitted_or_mapped_witness:
  "normalize plainRuntime (samplePayload [sampleDay JNull] JUndefined) \<noteq> None
   \<and> ''alerts'' \<notin> set (keys (wire (the (normalize plainRuntime
        (samplePayload [sampleDay JNull] JUndefined)))))
   \<and> normalize plainRuntime (samplePayload [sampleDay JNull] (JArr [])) \<noteq> None
   \<and> ''alerts'' \<notin> set (keys (wire (the (normalize plainRuntime
        (samplePayload [sampleDay JNull] (JArr []))))))
   \<and> normalize plainRuntime (samplePayload [sampleDay JNull]
        (JArr [JObj [(''event'', JStr ''Flood''), (''desc'', JStr ''River levels rising'')]])) \<noteq> None
   \<and> ''alerts'' \<in> set (keys (wire (the (normalize plainRuntime (samplePayload [sampleDay JNull]
        (JArr [JObj [(''event'', JStr ''Flood''), (''desc'', JStr ''River levels rising'')]]))))))
   \<and> length (elems (property (the (normalize plainRuntime (samplePayload [sampleDay JNull]
        (JArr [JObj [(''event'', JStr ''Flood''), (''desc'', JStr ''River levels rising'')]]))))
        ''alerts'')) = 1"
proof -
  let ?A = "JArr [JObj [(''event'', JStr ''Flood''), (''desc'', JStr ''River levels rising'')]]"
  let ?P = "samplePayload [sampleDay JNull] JUndefined"
  let ?Q = "samplePayload [sampleDay JNull] (JArr [])"
  let ?S = "samplePayload [sampleDay JNull] ?A"
  have p: "normalize plainRuntime ?P \<noteq> None" and q: "normalize plainRuntime ?Q \<noteq> None"
    and s: "normalize plainRuntime ?S \<noteq> None" by code_simp+
  have ap: "\<not> truthy (sourceAlerts ?P)" and aq: "sourceAlerts ?Q = JArr []"
    and as: "sourceAlerts ?S = ?A"
    by (simp_all add: sourceAlerts_def samplePayload_def optGet_def)
  from p have p': "normalize plainRuntime ?P = Some (the (normalize plainRuntime ?P))" by simp
  from q have q': "normalize plainRuntime ?Q = Some (the (normalize plainRuntime ?Q))" by simp
  from s have s': "normalize plainRuntime ?S = Some (the (normalize plainRuntime ?S))" by simp
  have 1: "''alerts'' \<notin> set (keys (wire (the (normalize plainRuntime ?P))))"
    using alerts_omitted_or_mapped [OF p'] ap by simp
  have 2: "''alerts'' \<notin> set (keys (wire (the (normalize plainRuntime ?Q))))"
    using alerts_omitted_or_mapped [OF q'] aq by simp
  have 3: "''alerts'' \<in> set (keys (wire (the (normalize plainRuntime ?S))))
    \<and> length (elems (property (the (normalize plainRuntime ?S)) ''alerts'')) = 1"
    using alerts_omitted_or_mapped [OF s'] as by auto
  from p q s 1 2 3 show ?thesis by simp
qed

lemma tomorrowPart_typed:
  assumes "tomorrowPart R (JArr xs) = Some (tomH, tomS)" and "1 < length xs"
    and "property (property (xs ! 1) ''day'') ''avgtemp_c'' = JNum (Finite a)"
    and "property (property (xs ! 1) ''day'') ''mintemp_c'' = JNum (Finite lo)"
    and "property (property (xs ! 1) ''day'') ''maxtemp_c'' = JNum (Finite hi)"
    and "property (property (property (xs ! 1) ''day'') ''condition'') ''text'' = JStr t"
  shows "tomS = JObj
     [(''temp'', JNum (Finite (of_int (round a)))),
      (''min'', JNum (Finite (of_int (round lo)))),
      (''max'', JNum (Finite (of_int (round hi)))),
      (''condition'', JStr (toLowerCase t)),
      (''description'', JStr t),
      (''icon'', property (property (property (xs ! 1) ''day'') ''condition'') ''icon'')]"
  using assms unfolding tomorrowPart_def
  by (auto simp: bind_eq_Some_conv get_Some lengthOf_def greaterThan_def Math_round_Finite)

text \<open>
  C9. When the payload has more than one forecast day, \<^verbatim>\<open>tomorrowDaySummary\<close> is built
  from the aggregate \<^verbatim>\<open>day\<close> block of the second forecast day: \<^verbatim>\<open>temp\<close>, \<^verbatim>\<open>min\<close> and \<^verbatim>\<open>max\<close> are
  \<^verbatim>\<open>Math.round\<close> of that block's average, minimum and maximum temperature, \<^verbatim>\<open>condition\<close> is
  its lower-cased condition text, \<^verbatim>\<open>description\<close> the text itself and \<^verbatim>\<open>icon\<close> its icon (for
  numeric temperatures and a string text the summary is the object written out below).
  The second \<^verbatim>\<open>dailyForecast\<close> entry is the daily mapping of the same day, and the six
  fields of the summary equal the same fields of that entry. Nothing is assumed of
  tomorrow's \<^verbatim>\<open>hour\<close> field, so the summary is produced with or without it.
\<close>

theorem tomorrow_summary_built_from_day_block:
  assumes "normalize R data = Some r" and "1 < length (forecastDays data)"
  shows "keys (property r ''tomorrowDaySummary'')
           = [''temp'', ''min'', ''max'', ''condition'', ''description'', ''icon'']
       \<and> Math_round R (property (property (forecastDays data ! 1) ''day'') ''avgtemp_c'')
           = Some (property (property r ''tomorrowDaySummary'') ''temp'')
       \<and> Math_round R (property (property (forecastDays data ! 1) ''day'') ''mintemp_c'')
           = Some (property (property r ''tomorrowDaySummary'') ''min'')
       \<and> Math_round R (property (property (forecastDays data ! 1) ''day'') ''maxtemp_c'')
           = Some (property (property r ''tomorrowDaySummary'') ''max'')
       \<and> call_toLowerCase
             (property (property (property (forecastDays data ! 1) ''day'') ''condition'') ''text'')
           = Some (property (property r ''tomorrowDaySummary'') ''condition'')
       \<and> property (property r ''tomorrowDaySummary'') ''description''
           = property (property (property (forecastDays data ! 1) ''day'') ''condition'') ''text''
       \<and> property (property r ''tomorrowDaySummary'') ''icon''
           = property (property (property (forecastDays data ! 1) ''day'') ''condition'') ''icon''
       \<and> (\<forall>a lo hi t.
            property (property (forecastDays data ! 1) ''day'') ''avgtemp_c'' = JNum (Finite a)
            \<and> property (property (forecastDays data ! 1) ''day'') ''mintemp_c'' = JNum (Finite lo)
            \<and> property (property (forecastDays data ! 1) ''day'') ''maxtemp_c'' = JNum (Finite hi)
            \<and> property (property (property (forecastDays data ! 1) ''day'') ''condition'') ''text''
                = JStr t
            \<longrightarrow> property r ''tomorrowDaySummary'' = JObj
                 [(''temp'', JNum (Finite (of_int (round a)))),
                  (''min'', JNum (Finite (of_int (round lo)))),
                  (''max'', JNum (Finite (of_int (round hi)))),
                  (''condition'', JStr (toLowerCase t)),
                  (''description'', JStr t),
                  (''icon'', property (property (property (forecastDays data ! 1) ''day'')
                               ''condition'') ''icon'')])
       \<and> 1 < length (elems (property r ''dailyForecast''))
       \<and> mapDay R (forecastDays data ! 1) = Some (elems (property r ''dailyForecast'') ! 1)
       \<and> (\<forall>k \<in> set [''temp'', ''min'', ''max'', ''condition'', ''description'', ''icon''].
            property (property r ''tomorrowDaySummary'') k
              = property (elems (property r ''dailyForecast'') ! 1) k)"
proof -
  let ?s = "property r ''tomorrowDaySummary''"
  let ?day = "forecastDays data ! 1"
  from normalize_days [OF assms(1)] obtain ys where
    ys: "property r ''dailyForecast'' = JArr ys"
      "mapArray (mapDay R) (forecastDays data) = Some ys"
    by (elim exE conjE)
  from mapArray_Some [OF ys(2)] assms(2) have len: "1 < length ys"
    and entry: "mapDay R ?day = Some (ys ! 1)" by simp_all
  note part = normalize_second_day(1) [OF assms]
  note s = tomorrowPart_Some [OF part assms(2)]
  note e = mapDay_Some [OF entry]
  have built: "keys ?s = [''temp'', ''min'', ''max'', ''condition'', ''description'', ''icon'']"
    "Math_round R (property (property ?day ''day'') ''avgtemp_c'') = Some (property ?s ''temp'')"
    "Math_round R (property (property ?day ''day'') ''mintemp_c'') = Some (property ?s ''min'')"
    "Math_round R (property (property ?day ''day'') ''maxtemp_c'') = Some (property ?s ''max'')"
    "call_toLowerCase (property (property (property ?day ''day'') ''condition'') ''text'')
       = Some (property ?s ''condition'')"
    "property ?s ''description'' = property (property (property ?day ''day'') ''condition'') ''text''"
    "property ?s ''icon'' = property (property (property ?day ''day'') ''condition'') ''icon''"
    using s by simp_all
  have same: "property ?s ''temp'' = property (ys ! 1) ''temp''"
    "property ?s ''min'' = property (ys ! 1) ''min''"
    "property ?s ''max'' = property (ys ! 1) ''max''"
    "property ?s ''condition'' = property (ys ! 1) ''condition''"
    "property ?s ''description'' = property (ys ! 1) ''description''"
    "property ?s ''icon'' = property (ys ! 1) ''icon''"
    using s e by simp_all
  have typed: "?s = JObj
                 [(''temp'', JNum (Finite (of_int (round a)))),
                  (''min'', JNum (Finite (of_int (round lo)))),
                  (''max'', JNum (Finite (of_int (round hi)))),
                  (''condition'', JStr (toLowerCase t)),
                  (''description'', JStr t),
                  (''icon'', property (property (property ?day ''day'') ''condition'') ''icon'')]"
    if "property (property ?day ''day'') ''avgtemp_c'' = JNum (Finite a)
        \<and> property (property ?day ''day'') ''mintemp_c'' = JNum (Finite lo)
        \<and> property (property ?day ''day'') ''maxtemp_c'' = JNum (Finite hi)
        \<and> property (property (property ?day ''day'') ''condition'') ''text'' = JStr t"
    for a lo hi t
  proof -
    from that have t: "property (property ?day ''day'') ''avgtemp_c'' = JNum (Finite a)"
      "property (property ?day ''day'') ''mintemp_c'' = JNum (Finite lo)"
      "property (property ?day ''day'') ''maxtemp_c'' = JNum (Finite hi)"
      "property (property (property ?day ''day'') ''condition'') ''text'' = JStr t"
      by simp_all
    from tomorrowPart_typed [OF part assms(2) t] show ?thesis .
  qed
  show ?thesis
  proof (intro conjI allI impI ballI)
    show "1 < length (elems (property r ''dailyForecast''))" using len ys(1) by simp
    show "mapDay R ?day = Some (elems (property r ''dailyForecast'') ! 1)"
      using entry ys(1) by simp
  next
    fix k assume "k \<in> set [''temp'', ''min'', ''max'', ''condition'', ''description'', ''icon'']"
    then show "property ?s k = property (elems (property r ''dailyForecast'') ! 1) k"
      using same by (auto simp: ys(1))
  qed (rule built typed, assumption?)+
qed

theorem tomorrow_summary_built_from_day_block_witness:
  "normalize plainRuntime (samplePayload [sampleDay JNull, sampleTomorrow JNull] JNull) \<noteq> None
   \<and> property (the (normalize plainRuntime
        (samplePayload [sampleDay JNull, sampleTomorrow JNull] JNull))) ''tomorrowDaySummary''
       = JObj [(''temp'', JNum (Finite 7)), (''min'', JNum (Finite (- 1))), (''max'', JNum (Finite 15)),
               (''condition'', JStr ''light rain''), (''description'', JStr ''Light Rain''),
               (''icon'', JStr ''//cdn/296.png'')]
   \<and> property (elems (property (the (normalize plainRuntime
        (samplePayload [sampleDay JNull, sampleTomorrow JNull] JNull))) ''dailyForecast'') ! 1) ''max''
       = JNum (Finite 15)
   \<and> normalize plainRuntime
        (samplePayload [sampleDay JNull, sampleTomorrow (JArr [sampleHour])] JNull) \<noteq> None
   \<and> property (the (normalize plainRuntime
        (samplePayload [sampleDay JNull, sampleTomorrow (JArr [sampleHour])] JNull)))
          ''tomorrowDaySummary''
       = JObj [(''temp'', JNum (Finite 7)), (''min'', JNum (Finite (- 1))), (''max'', JNum (Finite 15)),
               (''condition'', JStr ''light rain''), (''description'', JStr ''Light Rain''),
               (''icon'', JStr ''//cdn/296.png'')]"
proof -
  have summary: "property (the (normalize plainRuntime (samplePayload [sampleDay JNull, sampleTomorrow h] JNull)))
          ''tomorrowDaySummary''
       = JObj [(''temp'', JNum (Finite 7)), (''min'', JNum (Finite (- 1))), (''max'', JNum (Finite 15)),
               (''condition'', JStr ''light rain''), (''description'', JStr ''Light Rain''),
               (''icon'', JStr ''//cdn/296.png'')]
     \<and> property (elems (property (the (normalize plainRuntime
          (samplePayload [sampleDay JNull, sampleTomorrow h] JNull))) ''dailyForecast'') ! 1) ''max''
       = JNum (Finite 15)"
    if p: "normalize plainRuntime (samplePayload [sampleDay JNull, sampleTomorrow h] JNull) \<noteq> None"
    for h
  proof -
    let ?P = "samplePayload [sampleDay JNull, sampleTomorrow h] JNull"
    let ?r = "the (normalize plainRuntime ?P)"
    from p have p': "normalize plainRuntime ?P = Some ?r" by simp
    have days: "forecastDays ?P = [sampleDay JNull, sampleTomorrow h]"
      by (simp add: forecastDays_def samplePayload_def)
    then have two: "1 < length (forecastDays ?P)" and day: "forecastDays ?P ! 1 = sampleTomorrow h"
      by simp_all
    have block: "property (property (sampleTomorrow h) ''day'') ''avgtemp_c'' = JNum (Finite (71 / 10))"
      "property (property (sampleTomorrow h) ''day'') ''mintemp_c'' = JNum (Finite (- 3 / 2))"
      "property (property (sampleTomorrow h) ''day'') ''maxtemp_c'' = JNum (Finite (29 / 2))"
      "property (property (property (sampleTomorrow h) ''day'') ''condition'') ''text'' = JStr ''Light Rain''"
      by (simp_all add: sampleTomorrow_def)
    have icon: "property (property (property (sampleTomorrow h) ''day'') ''condition'') ''icon''
        = JStr ''//cdn/296.png''"
      by (simp add: sampleTomorrow_def)
    have lower: "toLowerCase ''Light Rain'' = ''light rain''" by code_simp
    have r1: "round (71 / 10 :: rat) = 7" and r2: "round (- 3 / 2 :: rat) = - 1"
      and r3: "round (29 / 2 :: rat) = 15" by code_simp+
    note c9 = tomorrow_summary_built_from_day_block [OF p' two, unfolded day]
    from c9 have typed: "\<forall>a lo hi t.
            property (property (sampleTomorrow h) ''day'') ''avgtemp_c'' = JNum (Finite a)
            \<and> property (property (sampleTomorrow h) ''day'') ''mintemp_c'' = JNum (Finite lo)
            \<and> property (property (sampleTomorrow h) ''day'') ''maxtemp_c'' = JNum (Finite hi)
            \<and> property (property (property (sampleTomorrow h) ''day'') ''condition'') ''text''
                = JStr t
            \<longrightarrow> property ?r ''tomorrowDaySummary'' = JObj
                 [(''temp'', JNum (Finite (of_int (round a)))),
                  (''min'', JNum (Finite (of_int (round lo)))),
                  (''max'', JNum (Finite (of_int (round hi)))),
                  (''condition'', JStr (toLowerCase t)),
                  (''description'', JStr t),
                  (''icon'', property (property (property (sampleTomorrow h) ''day'')
                               ''condition'') ''icon'')]"
      and same: "property (property ?r ''tomorrowDaySummary'') ''max''
              = property (elems (property ?r ''dailyForecast'') ! 1) ''max''"
      by simp_all
    have "property ?r ''tomorrowDaySummary'' = JObj
                 [(''temp'', JNum (Finite (of_int (round (71 / 10 :: rat))))),
                  (''min'', JNum (Finite (of_int (round (- 3 / 2 :: rat))))),
                  (''max'', JNum (Finite (of_int (round (29 / 2 :: rat))))),
                  (''condition'', JStr (toLowerCase ''Light Rain'')),
                  (''description'', JStr ''Light Rain''),
                  (''icon'', property (property (property (sampleTomorrow h) ''day'')
                               ''condition'') ''icon'')]"
      by (rule typed [rule_format]) (intro conjI block)
    then have s: "property ?r ''tomorrowDaySummary''
       = JObj [(''temp'', JNum (Finite 7)), (''min'', JNum (Finite (- 1))), (''max'', JNum (Finite 15)),
               (''condition'', JStr ''light rain''), (''description'', JStr ''Light Rain''),
               (''icon'', JStr ''//cdn/296.png'')]"
      unfolding icon lower r1 r2 r3 by simp
    with same show ?thesis by simp
  qed
  have p: "normalize plainRuntime (samplePayload [sampleDay JNull, sampleTomorrow JNull] JNull) \<noteq> None"
    and q: "normalize plainRuntime
        (samplePayload [sampleDay JNull, sampleTomorrow (JArr [sampleHour])] JNull) \<noteq> None"
    by code_simp+
  from summary [OF p] summary [OF q] p q show ?thesis by simp
qed

text \<open>
  C2, as stated, fails on an alert such as
  \<^verbatim>\<open>{event: "", headline: "Flood warning", severity: ""}\<close>. The empty event name and
  severity are present but falsy, so \<^verbatim>\<open>||\<close> passes on to the headline and to
  \<^verbatim>\<open>"moderate"\<close>; and without a \<^verbatim>\<open>desc\<close> field \<^verbatim>\<open>undefined + ""\<close> is the string
  \<^verbatim>\<open>"undefined"\<close>, which is truthy, so the description is not the empty string.
\<close>

theorem alert_with_empty_and_missing_fields:
  "mapAlert plainRuntime
     (JObj [(''event'', JStr ''''), (''headline'', JStr ''Flood warning''), (''severity'', JStr '''')])
   = Some (JObj [(''title'', JStr ''Flood warning''), (''description'', JStr ''undefined''),
                 (''severity'', JStr ''moderate'')])"
  by code_simp

text \<open>
  C2, amended. For every source alert whose \<^verbatim>\<open>desc\<close> field is a string: the title is the
  event name if that is truthy (for a string: not empty), else the headline if that is
  truthy, else \<^verbatim>\<open>"Alert"\<close>; the description is the first 200 characters of \<^verbatim>\<open>desc\<close>, with
  \<^verbatim>\<open>"..."\<close> appended exactly when \<^verbatim>\<open>desc\<close> is longer than 200 characters; the severity is
  the given severity if that is truthy, else \<^verbatim>\<open>"moderate"\<close>.
\<close>

theorem alert_title_description_severity:
  assumes "\<not> nullish alert" and "property alert ''desc'' = JStr d"
  shows "mapAlert R alert = Some (JObj
     [(''title'',
         if truthy (property alert ''event'') then property alert ''event''
         else if truthy (property alert ''headline'') then property alert ''headline''
         else JStr ''Alert''),
      (''description'', JStr (take 200 d @ (if 200 < length d then ''...'' else ''''))),
      (''severity'',
         if truthy (property alert ''severity'') then property alert ''severity''
         else JStr ''moderate'')])"
  using assms
  by (simp add: mapAlert_def get_def greaterThan_def plusString_def substring_def jsOr_def)

theorem alert_title_description_severity_witness:
  "mapAlert plainRuntime
     (JObj [(''headline'', JStr ''Heat''), (''desc'', JStr (replicate 250 CHR ''x''))])
   = Some (JObj
       [(''title'', JStr ''Heat''),
        (''description'', JStr (replicate 200 CHR ''x'' @ ''...'')),
        (''severity'', JStr ''moderate'')])
   \<and> length (replicate 200 CHR ''x'' @ ''...'') = 203"
proof -
  let ?a = "JObj [(''headline'', JStr ''Heat''), (''desc'', JStr (replicate 250 CHR ''x''))]"
  have 1: "\<not> nullish ?a" by simp
  have 2: "property ?a ''desc'' = JStr (replicate 250 CHR ''x'')" by simp
  show ?thesis
    using alert_title_description_severity [OF 1 2, of plainRuntime] by simp
qed

lemma mapped_hours_whole:
  assumes "mapArray (mapHour R) hs = Some ys" and "h \<in> set ys"
  shows "\<not> fractional (property h ''temp'') \<and> \<not> fractional (property h ''windSpeed'')"
proof -
  from assms(2) obtain i where i: "i < length ys" "h = ys ! i"
    by (auto simp: in_set_conv_nth)
  with mapArray_Some [OF assms(1)] have "mapHour R (hs ! i) = Some h" by simp
  from mapHour_Some [OF this] show ?thesis
    by (elim conjE) (intro conjI; erule Math_round_whole)
qed

lemma mapped_hours_humidity:
  assumes "mapArray (mapHour R) hs = Some ys" and "i < length hs"
  shows "property (ys ! i) ''humidity'' = property (hs ! i) ''humidity''"
proof -
  from mapArray_Some [OF assms(1)] assms(2) have "mapHour R (hs ! i) = Some (ys ! i)" by simp
  from mapHour_Some [OF this] show ?thesis by simp
qed

lemma mapped_days_whole:
  assumes "mapArray (mapDay R) ds = Some ys" and "e \<in> set ys"
  shows "\<not> fractional (property e ''temp'') \<and> \<not> fractional (property e ''min'')
       \<and> \<not> fractional (property e ''max'')"
proof -
  from assms(2) obtain i where i: "i < length ys" "e = ys ! i"
    by (auto simp: in_set_conv_nth)
  with mapArray_Some [OF assms(1)] have "mapDay R (ds ! i) = Some e" by simp
  from mapDay_Some [OF this] show ?thesis
    by (elim conjE) (intro conjI; erule Math_round_whole)
qed

lemma summary_whole:
  assumes "normalize R data = Some r"
  shows "\<not> fractional (property (property r ''tomorrowDaySummary'') ''temp'')
       \<and> \<not> fractional (property (property r ''tomorrowDaySummary'') ''min'')
       \<and> \<not> fractional (property (property r ''tomorrowDaySummary'') ''max'')"
proof (cases "1 < length (forecastDays data)")
  case True
  from tomorrowPart_Some [OF normalize_second_day(1) [OF assms True] True]
  show ?thesis
    by (elim conjE) (intro conjI; erule Math_round_whole)
next
  case False
  with normalize_days [OF assms] have "length (forecastDays data) = 1"
    by (cases "forecastDays data") auto
  from normalize_single_day(2) [OF assms this] show ?thesis
    by (simp add: fractional_def)
qed

lemma tomorrow_hours_whole:
  assumes "normalize R data = Some r" and "h \<in> set (elems (property r ''tomorrowHourlyForecast''))"
  shows "\<not> fractional (property h ''temp'') \<and> \<not> fractional (property h ''windSpeed'')"
proof (cases "1 < length (forecastDays data)")
  case True
  from normalize_second_day(2) [OF assms(1) True] obtain ys where
    ys: "property r ''tomorrowHourlyForecast'' = JArr ys"
      "mapArray (mapHour R) (elems (property (forecastDays data ! 1) ''hour'')) = Some ys"
    by (elim exE conjE)
  from assms(2) ys(1) have "h \<in> set ys" by simp
  from mapped_hours_whole [OF ys(2) this] show ?thesis .
next
  case False
  with normalize_days [OF assms(1)] have "length (forecastDays data) = 1"
    by (cases "forecastDays data") auto
  from normalize_single_day(1) [OF assms(1) this] assms(2) show ?thesis by simp
qed

text \<open>
  C1, as stated, fails on the fields that the handler copies without \<^verbatim>\<open>Math.round\<close>: a
  payload whose UV index is 5.5 gives \<^verbatim>\<open>uvIndex: 5.5\<close>.
\<close>

theorem uv_index_keeps_its_fraction:
  "normalize plainRuntime (samplePayload [sampleDay (JArr [sampleHour])] JNull) \<noteq> None
   \<and> property (the (normalize plainRuntime (samplePayload [sampleDay (JArr [sampleHour])] JNull)))
        ''uvIndex'' = JNum (Finite (11 / 2))
   \<and> fractional (property (the (normalize plainRuntime
        (samplePayload [sampleDay (JArr [sampleHour])] JNull))) ''uvIndex'')"
  by code_simp

text \<open>
  C1, amended. For every payload the normalizer accepts, the fields computed with
  \<^verbatim>\<open>Math.round\<close> never hold a fractional value: \<^verbatim>\<open>temperature\<close>, \<^verbatim>\<open>feelsLike\<close>, \<^verbatim>\<open>high\<close>, \<^verbatim>\<open>low\<close>,
  \<^verbatim>\<open>windSpeed\<close> and \<^verbatim>\<open>visibility\<close>, \<^verbatim>\<open>temp\<close> and \<^verbatim>\<open>windSpeed\<close> of every hourly entry of today and
  tomorrow, and \<^verbatim>\<open>temp\<close>, \<^verbatim>\<open>min\<close> and \<^verbatim>\<open>max\<close> of the summary and of every daily entry; a
  temperature that is a number is replaced by its rounding. \<^verbatim>\<open>humidity\<close>, \<^verbatim>\<open>windDirection\<close>,
  \<^verbatim>\<open>uvIndex\<close> and \<^verbatim>\<open>pressure\<close>, the \<^verbatim>\<open>humidity\<close> of an hourly entry and the \<^verbatim>\<open>dt\<close> of a daily
  entry are the provider's values, unchanged.
\<close>

theorem rounded_fields_hold_no_fraction:
  assumes "normalize R data = Some r"
  shows "(\<forall>k \<in> set [''temperature'', ''feelsLike'', ''high'', ''low'', ''windSpeed'', ''visibility''].
            \<not> fractional (property r k))
       \<and> (\<forall>h \<in> set (elems (property r ''hourlyForecast''))
                 \<union> set (elems (property r ''tomorrowHourlyForecast'')).
            \<not> fractional (property h ''temp'') \<and> \<not> fractional (property h ''windSpeed''))
       \<and> (\<forall>k \<in> set [''temp'', ''min'', ''max''].
            \<not> fractional (property (property r ''tomorrowDaySummary'') k))
       \<and> (\<forall>e \<in> set (elems (property r ''dailyForecast'')).
            \<forall>k \<in> set [''temp'', ''min'', ''max'']. \<not> fractional (property e k))
       \<and> (\<forall>q. property (property data ''current'') ''temp_c'' = JNum (Finite q) \<longrightarrow>
            property r ''temperature'' = JNum (Finite (of_int (round q))))
       \<and> property r ''humidity'' = property (property data ''current'') ''humidity''
       \<and> property r ''windDirection'' = property (property data ''current'') ''wind_degree''
       \<and> property r ''uvIndex'' = property (property data ''current'') ''uv''
       \<and> property r ''pressure'' = property (property data ''current'') ''pressure_mb''
       \<and> (\<forall>i<length (elems (property (forecastDays data ! 0) ''hour'')).
            property (elems (property r ''hourlyForecast'') ! i) ''humidity''
              = property (elems (property (forecastDays data ! 0) ''hour'') ! i) ''humidity'')
       \<and> (\<forall>i<length (forecastDays data).
            property (elems (property r ''dailyForecast'') ! i) ''dt''
              = property (forecastDays data ! i) ''date_epoch'')"
proof -
  note n = normalize_Some [OF assms]
  have top: "\<not> fractional (property r ''temperature'')" "\<not> fractional (property r ''feelsLike'')"
    "\<not> fractional (property r ''windSpeed'')" "\<not> fractional (property r ''visibility'')"
    using n by (auto dest: Math_round_whole)
  have hl: "\<not> fractional (property r ''high'')" "\<not> fractional (property r ''low'')"
    using normalize_first_day(3,4) [OF assms] by (auto dest: Math_round_whole)
  from normalize_first_day(2) [OF assms] obtain hs where
    hs: "property r ''hourlyForecast'' = JArr hs"
      "mapArray (mapHour R) (elems (property (forecastDays data ! 0) ''hour'')) = Some hs"
    by (elim exE conjE)
  from normalize_days [OF assms] obtain ds where
    ds: "property r ''dailyForecast'' = JArr ds"
      "mapArray (mapDay R) (forecastDays data) = Some ds"
    by (elim exE conjE)
  have hours: "\<not> fractional (property h ''temp'') \<and> \<not> fractional (property h ''windSpeed'')"
    if "h \<in> set (elems (property r ''hourlyForecast''))
            \<union> set (elems (property r ''tomorrowHourlyForecast''))" for h
    using that mapped_hours_whole [OF hs(2)] tomorrow_hours_whole [OF assms] hs(1) by auto
  have days: "\<not> fractional (property e ''temp'') \<and> \<not> fractional (property e ''min'')
       \<and> \<not> fractional (property e ''max'')"
    if "e \<in> set (elems (property r ''dailyForecast''))" for e
    using that mapped_days_whole [OF ds(2)] ds(1) by simp
  have temperature: "property r ''temperature'' = JNum (Finite (of_int (round q)))"
    if "property (property data ''current'') ''temp_c'' = JNum (Finite q)" for q
    using n that by (simp add: Math_round_Finite)
  have copied: "property r ''humidity'' = property (property data ''current'') ''humidity''"
    "property r ''windDirection'' = property (property data ''current'') ''wind_degree''"
    "property r ''uvIndex'' = property (property data ''current'') ''uv''"
    "property r ''pressure'' = property (property data ''current'') ''pressure_mb''"
    using n by simp_all
  have humidity: "property (elems (property r ''hourlyForecast'') ! i) ''humidity''
              = property (elems (property (forecastDays data ! 0) ''hour'') ! i) ''humidity''"
    if "i < length (elems (property (forecastDays data ! 0) ''hour''))" for i
    using mapped_hours_humidity [OF hs(2) that] hs(1) by simp
  have dt: "property (elems (property r ''dailyForecast'') ! i) ''dt''
              = property (forecastDays data ! i) ''date_epoch''"
    if "i < length (forecastDays data)" for i
  proof -
    from mapArray_Some [OF ds(2)] that have "mapDay R (forecastDays data ! i) = Some (ds ! i)"
      by simp
    from mapDay_Some [OF this] show ?thesis by (simp add: ds(1))
  qed
  show ?thesis
    using top hl hours summary_whole [OF assms] days temperature copied humidity dt
    by simp
qed

theorem rounded_fields_hold_no_fraction_witness:
  "normalize plainRuntime (samplePayload [sampleDay (JArr [sampleHour])] JNull) \<noteq> None
   \<and> property (the (normalize plainRuntime (samplePayload [sampleDay (JArr [sampleHour])] JNull)))
        ''temperature'' = JNum (Finite 13)
   \<and> \<not> fractional (property (the (normalize plainRuntime
        (samplePayload [sampleDay (JArr [sampleHour])] JNull))) ''windSpeed'')"
proof -
  let ?P = "samplePayload [sampleDay (JArr [sampleHour])] JNull"
  have p: "normalize plainRuntime ?P \<noteq> None" by code_simp
  then have p': "normalize plainRuntime ?P = Some (the (normalize plainRuntime ?P))" by simp
  have t: "property (property ?P ''current'') ''temp_c'' = JNum (Finite (25 / 2))"
    by (simp add: samplePayload_def)
  have r: "round (25 / 2 :: rat) = 13" by code_simp
  from rounded_fields_hold_no_fraction [OF p'] have
    whole: "\<forall>k \<in> set [''temperature'', ''feelsLike'', ''high'', ''low'', ''windSpeed'', ''visibility''].
            \<not> fractional (property (the (normalize plainRuntime ?P)) k)"
    and temp: "\<forall>q. property (property ?P ''current'') ''temp_c'' = JNum (Finite q) \<longrightarrow>
            property (the (normalize plainRuntime ?P)) ''temperature''
              = JNum (Finite (of_int (round q)))"
    by simp_all
  from temp [rule_format, OF t] r
  have "property (the (normalize plainRuntime ?P)) ''temperature'' = JNum (Finite 13)" by simp
  with whole p show ?thesis by simp
qed

end
